theory Spec2Isabelle
  imports Main "HOL-Library.AList" "HOL-Library.Sublist"
begin

section \<open>Source acquisition of \<^verbatim>\<open>cli/download_source.go\<close>\<close>

text \<open>
  The file under verification downloads a Terraform module source into a cached
  download directory, decides from a version-marker file whether the download can be
  skipped, overlays the operator's working directory on the result and repoints the
  operator's working directory.

  Everything the file calls in other packages (\<^verbatim>\<open>config\<close>, \<^verbatim>\<open>options\<close>, \<^verbatim>\<open>util\<close>,
  \<^verbatim>\<open>os\<close>, \<^verbatim>\<open>filepath\<close>, \<^verbatim>\<open>go-getter\<close>, the hook runner) is a field of the record
  \<open>env\<close>: the functions of this file are embedded once, for every behaviour of their
  collaborators. The filesystem and the network are the type parameter \<open>'w\<close>.
\<close>

subsection \<open>Data\<close>

type_synonym path = string
type_synonym url = string

text \<open>Go's \<^verbatim>\<open>error\<close>; \<^verbatim>\<open>errors.WithStackTrace\<close> wraps its argument.\<close>

datatype error = Err string | WithStackTrace error

text \<open>\<^verbatim>\<open>config.TerraformSource\<close>, the fields this file reads.\<close>

record TerraformSource =
  CanonicalSourceURL :: url
  DownloadDir :: path
  WorkingDir :: path
  VersionFile :: path

text \<open>
  \<^verbatim>\<open>options.TerragruntOptions\<close>, the fields this file reads or writes. A record is
  extensible, so the other fields of the struct are its \<open>more\<close> part. Both structs
  have a field \<^verbatim>\<open>WorkingDir\<close>: the plain name is the one of the options, the one of
  the source is written \<open>TerraformSource.WorkingDir\<close>.
\<close>

record TerragruntOptions =
  Source :: string
  SourceUpdate :: bool
  WorkingDir :: path
  TerragruntConfigPath :: path
  TerraformCommand :: string

text \<open>
  \<^verbatim>\<open>config.TerragruntConfig\<close>: the optional \<^verbatim>\<open>Terraform\<close> block with its optional
  \<^verbatim>\<open>Source\<close> (both pointers in Go, \<open>None\<close> is \<^verbatim>\<open>nil\<close>).
\<close>

record TerraformConfig =
  TerraformSourceRef :: "string option"

record TerragruntConfig =
  Terraform :: "TerraformConfig option"

definition MODULE_MANIFEST_NAME :: string where
  "MODULE_MANIFEST_NAME = ''.terragrunt-module-manifest''"

text \<open>
  The command the download hooks wait for; the constant is declared outside this file,
  its value is the one the comment of \<^verbatim>\<open>downloadTerraformSourceIfNecessary\<close> names.
\<close>

definition CMD_INIT_FROM_MODULE :: string where
  "CMD_INIT_FROM_MODULE = ''init-from-module''"

subsection \<open>Getter maps\<close>

text \<open>
  A go-getter backend: one of the library's defaults (of any type \<open>'g\<close>), or the
  \<^verbatim>\<open>FileCopyGetter\<close> of this repository.
\<close>

datatype 'g Getter = DefaultGetter 'g | FileCopyGetter

text \<open>
  A Go map is a reference to a table. The tables live in a store, a list indexed by
  reference; a table is an association list with one entry per key, and \<^verbatim>\<open>range\<close>
  visits its entries in the order of the list (Go fixes no order, and the list is
  arbitrary). Reference \<open>0\<close> is the global \<^verbatim>\<open>getter.Getters\<close>.
\<close>

type_synonym 'g getter_table = "(string \<times> 'g Getter) list"
type_synonym 'g map_store = "'g getter_table list"

definition GettersRef :: nat where
  "GettersRef = 0"

text \<open>\<^verbatim>\<open>getter.Client\<close>: the field this file assigns, a map reference (\<open>None\<close> is nil).\<close>

record Client =
  Getters :: "nat option"

subsection \<open>State\<close>

text \<open>
  What an acquisition does that an observer can see, in order: the lines it logs and
  the calls it makes to its collaborators, each with its arguments (for the hooks, the
  options they are run with).
\<close>

datatype event =
    Log string
  | RemoveAllCall path
  | CacheCheck
  | BeforeHooksCall TerragruntOptions
  | GetAnyCall path url
  | AfterHooksCall TerragruntOptions
  | WriteVersionFileCall path
  | CopyFolderContentsCall path path string

text \<open>
  The state an acquisition runs in: the outside world, the struct behind the caller's
  \<^verbatim>\<open>*TerragruntOptions\<close>, the store of getter maps, and the events so far.
\<close>

record ('w, 'g) sys =
  world :: 'w
  opts :: TerragruntOptions
  maps :: "'g map_store"
  trace :: "event list"

definition emit :: "event \<Rightarrow> ('w, 'g) sys \<Rightarrow> ('w, 'g) sys" where
  "emit ev s = s\<lparr>trace := trace s @ [ev]\<rparr>"

text \<open>
  The collaborators. A call that changes the world returns the error (\<open>None\<close> is
  \<^verbatim>\<open>nil\<close>) and the world it leaves, also when it fails.
\<close>

record ('w, 'g) env =
  ProcessTerraformSource :: "string \<Rightarrow> TerragruntOptions \<Rightarrow> error + TerraformSource"
  IsLocalSource :: "url \<Rightarrow> bool"
  EncodeSourceVersion :: "url \<Rightarrow> string"
  FileExists :: "'w \<Rightarrow> path \<Rightarrow> bool"
  Glob :: "'w \<Rightarrow> string \<Rightarrow> error + path list"
  ReadVersionFile :: "'w \<Rightarrow> TerraformSource \<Rightarrow> error + string"
  WriteVersionFile :: "TerraformSource \<Rightarrow> 'w \<Rightarrow> error option \<times> 'w"
  RemoveAll :: "path \<Rightarrow> 'w \<Rightarrow> error option \<times> 'w"
  CopyFolderContents :: "path \<Rightarrow> path \<Rightarrow> string \<Rightarrow> 'w \<Rightarrow> error option \<times> 'w"
  Clone :: "TerragruntOptions \<Rightarrow> path \<Rightarrow> TerragruntOptions"
  ProcessBeforeHooks :: "TerragruntOptions \<Rightarrow> TerragruntConfig \<Rightarrow> 'w \<Rightarrow> error option \<times> 'w"
  ProcessAfterHooks :: "TerragruntOptions \<Rightarrow> TerragruntConfig \<Rightarrow> 'w \<Rightarrow> error option \<times> 'w"
  ClientGet :: "path \<Rightarrow> url \<Rightarrow> 'g getter_table option \<Rightarrow> 'w \<Rightarrow> error option \<times> 'w"
  OPT_TERRAGRUNT_SOURCE_UPDATE :: string

subsection \<open>The cache check\<close>

text \<open>
  \<^verbatim>\<open>alreadyHaveLatestCode\<close>: the Boolean and the error of the Go function as a sum, and
  the state, which the function changes by logging only.
\<close>

definition alreadyHaveLatestCode ::
  "('w, 'g) env \<Rightarrow> TerraformSource \<Rightarrow> ('w, 'g) sys \<Rightarrow> (error + bool) \<times> ('w, 'g) sys" where
  "alreadyHaveLatestCode env terraformSource s =
     (if IsLocalSource env (CanonicalSourceURL terraformSource) \<or>
         \<not> FileExists env (world s) (DownloadDir terraformSource) \<or>
         \<not> FileExists env (world s) (TerraformSource.WorkingDir terraformSource) \<or>
         \<not> FileExists env (world s) (VersionFile terraformSource)
      then (Inr False, s)
      else
        (case Glob env (world s) (TerraformSource.WorkingDir terraformSource @ ''/*.tf'') of
           Inl err \<Rightarrow> (Inl (WithStackTrace err), s)
         | Inr tfFiles \<Rightarrow>
             if length tfFiles = 0
             then (Inr False,
                   emit (Log (''Working dir '' @ TerraformSource.WorkingDir terraformSource @
                     '' exists but contains no Terraform files, so assuming code needs to be downloaded again.'')) s)
             else
               (let currentVersion = EncodeSourceVersion env (CanonicalSourceURL terraformSource)
                in case ReadVersionFile env (world s) terraformSource of
                     Inl err \<Rightarrow> (Inl err, s)
                   | Inr previousVersion \<Rightarrow> (Inr (previousVersion = currentVersion), s))))"

subsection \<open>The getter map of a download\<close>

text \<open>
  Reading a table through a reference, and the assignment \<^verbatim>\<open>m[k] = v\<close> through one.
  A reference that the store does not hold reads as the empty table and is not assigned
  to.
\<close>

definition table_of :: "'g map_store \<Rightarrow> nat \<Rightarrow> 'g getter_table" where
  "table_of ms r = (if r < length ms then ms ! r else [])"

definition assign :: "nat \<Rightarrow> string \<Rightarrow> 'g Getter \<Rightarrow> 'g map_store \<Rightarrow> 'g map_store" where
  "assign r k v ms = (if r < length ms then ms[r := AList.update k v (ms ! r)] else ms)"

text \<open>
  \<^verbatim>\<open>copyFiles\<close>: the map literal allocates a new, empty table, whose reference is stored
  in \<^verbatim>\<open>client.Getters\<close>; the loop ranges over the table of \<^verbatim>\<open>getter.Getters\<close> and
  assigns through \<^verbatim>\<open>client.Getters\<close>. The result is the error (always nil), the store
  and the client.
\<close>

definition copyFiles ::
  "'g map_store \<times> Client \<Rightarrow> error option \<times> 'g map_store \<times> Client" where
  "copyFiles = (\<lambda>(ms, client).
     (let r = length ms;
          ms1 = ms @ [[]];
          client1 = client\<lparr>Getters := Some r\<rparr>;
          ms2 = fold (\<lambda>(getterName, getterValue) m.
                        if getterName = ''file''
                        then assign r getterName FileCopyGetter m
                        else assign r getterName getterValue m)
                  (table_of ms GettersRef) ms1
      in (None, ms2, client1)))"

text \<open>
  \<^verbatim>\<open>getter.GetAny\<close> of go-getter: it builds a client, applies the client option to it
  and, unless the option fails, runs the transfer with the client's getters (a nil map
  stands for the library's defaults).
\<close>

definition GetAny ::
  "('w, 'g) env \<Rightarrow> path \<Rightarrow> url \<Rightarrow>
   ('g map_store \<times> Client \<Rightarrow> error option \<times> 'g map_store \<times> Client) \<Rightarrow>
   ('w, 'g) sys \<Rightarrow> error option \<times> ('w, 'g) sys" where
  "GetAny env dst src clientOption s =
     (case clientOption (maps s, \<lparr>Getters = None\<rparr>) of
        (Some err, ms, client) \<Rightarrow> (Some err, s\<lparr>maps := ms\<rparr>)
      | (None, ms, client) \<Rightarrow>
          (case ClientGet env dst src (map_option (table_of ms) (Getters client)) (world s) of
             (err, w) \<Rightarrow> (err, s\<lparr>world := w, maps := ms\<rparr>)))"

definition downloadSource ::
  "('w, 'g) env \<Rightarrow> TerraformSource \<Rightarrow> TerragruntConfig \<Rightarrow>
   ('w, 'g) sys \<Rightarrow> error option \<times> ('w, 'g) sys" where
  "downloadSource env terraformSource terragruntConfig s =
     (let s1 = emit (Log (''Downloading Terraform configurations from '' @
                 CanonicalSourceURL terraformSource @ '' into '' @ DownloadDir terraformSource)) s;
          s2 = emit (GetAnyCall (DownloadDir terraformSource) (CanonicalSourceURL terraformSource)) s1
      in case GetAny env (DownloadDir terraformSource) (CanonicalSourceURL terraformSource)
                copyFiles s2 of
           (Some err, s3) \<Rightarrow> (Some (WithStackTrace err), s3)
         | (None, s3) \<Rightarrow> (None, s3))"

subsection \<open>The hook runner\<close>

text \<open>
  Modelled from the spec: \<^verbatim>\<open>runActionWithHooks\<close> is a function of this repository that
  is not in the source given. Section 4.4 of the specification: the before hooks keyed
  to the command of the options run, then the action, then the matching after hooks; a
  failure of a hook or of the action aborts and is the error returned. The hooks
  themselves are collaborators.
\<close>

definition runActionWithHooks ::
  "('w, 'g) env \<Rightarrow> string \<Rightarrow> TerragruntOptions \<Rightarrow> TerragruntConfig \<Rightarrow>
   (('w, 'g) sys \<Rightarrow> error option \<times> ('w, 'g) sys) \<Rightarrow>
   ('w, 'g) sys \<Rightarrow> error option \<times> ('w, 'g) sys" where
  "runActionWithHooks env description terragruntOptions terragruntConfig action s =
     (let s1 = emit (BeforeHooksCall terragruntOptions) s
      in case ProcessBeforeHooks env terragruntOptions terragruntConfig (world s1) of
           (Some err, w1) \<Rightarrow> (Some err, s1\<lparr>world := w1\<rparr>)
         | (None, w1) \<Rightarrow>
             (case action (s1\<lparr>world := w1\<rparr>) of
                (Some err, s2) \<Rightarrow> (Some err, s2)
              | (None, s2) \<Rightarrow>
                  (let s3 = emit (AfterHooksCall terragruntOptions) s2
                   in case ProcessAfterHooks env terragruntOptions terragruntConfig (world s3) of
                        (err, w3) \<Rightarrow> (err, s3\<lparr>world := w3\<rparr>))))"

subsection \<open>The acquisition\<close>

text \<open>
  \<^verbatim>\<open>downloadTerraformSourceIfNecessary\<close> is embedded in three parts, so that a theorem
  can name the state between them. Its first statement (lines 47 to 52): with the flag \<^verbatim>\<open>SourceUpdate\<close>, the download directory is removed, and a failure of the
  removal is returned wrapped.
\<close>

definition removeOnSourceUpdate ::
  "('w, 'g) env \<Rightarrow> TerraformSource \<Rightarrow> ('w, 'g) sys \<Rightarrow> error option \<times> ('w, 'g) sys" where
  "removeOnSourceUpdate env terraformSource s =
     (if SourceUpdate (opts s)
      then (let s1 = emit (Log (''The --'' @ OPT_TERRAGRUNT_SOURCE_UPDATE env @
                       '' flag is set, so deleting the temporary folder '' @
                       DownloadDir terraformSource @ '' before downloading source.'')) s;
                s2 = emit (RemoveAllCall (DownloadDir terraformSource)) s1
            in case RemoveAll env (DownloadDir terraformSource) (world s2) of
                 (err, w) \<Rightarrow> (map_option WithStackTrace err, s2\<lparr>world := w\<rparr>))
      else (None, s))"

text \<open>
  The rest of the function once the cache check has said that the code is not there
  (lines 64 to 81): the download inside the hooks, run on a clone of the options with
  the command of the hooks, then the version file.
\<close>

definition downloadAndMark ::
  "('w, 'g) env \<Rightarrow> TerraformSource \<Rightarrow> TerragruntConfig \<Rightarrow>
   ('w, 'g) sys \<Rightarrow> error option \<times> ('w, 'g) sys" where
  "downloadAndMark env terraformSource terragruntConfig s =
     (let terragruntOptionsForDownload =
            (Clone env (opts s) (TerragruntConfigPath (opts s)))
              \<lparr>TerraformCommand := CMD_INIT_FROM_MODULE\<rparr>
      in case runActionWithHooks env ''download source''
                terragruntOptionsForDownload terragruntConfig
                (downloadSource env terraformSource terragruntConfig) s of
           (Some downloadErr, s1) \<Rightarrow> (Some downloadErr, s1)
         | (None, s1) \<Rightarrow>
             (let s2 = emit (WriteVersionFileCall (VersionFile terraformSource)) s1
              in case WriteVersionFile env terraformSource (world s2) of
                   (err, w) \<Rightarrow> (err, s2\<lparr>world := w\<rparr>)))"

definition downloadTerraformSourceIfNecessary ::
  "('w, 'g) env \<Rightarrow> TerraformSource \<Rightarrow> TerragruntConfig \<Rightarrow>
   ('w, 'g) sys \<Rightarrow> error option \<times> ('w, 'g) sys" where
  "downloadTerraformSourceIfNecessary env terraformSource terragruntConfig s =
     (case removeOnSourceUpdate env terraformSource s of
        (Some err, s1) \<Rightarrow> (Some err, s1)
      | (None, s1) \<Rightarrow>
          (case alreadyHaveLatestCode env terraformSource (emit CacheCheck s1) of
             (Inl err, s2) \<Rightarrow> (Some err, s2)
           | (Inr alreadyLatest, s2) \<Rightarrow>
               if alreadyLatest
               then (None, emit (Log (''Terraform files in '' @
                              TerraformSource.WorkingDir terraformSource @
                              '' are up to date. Will not download again.'')) s2)
               else downloadAndMark env terraformSource terragruntConfig s2))"

definition downloadTerraformSource ::
  "('w, 'g) env \<Rightarrow> string \<Rightarrow> TerragruntConfig \<Rightarrow>
   ('w, 'g) sys \<Rightarrow> error option \<times> ('w, 'g) sys" where
  "downloadTerraformSource env source terragruntConfig s =
     (case ProcessTerraformSource env source (opts s) of
        Inl err \<Rightarrow> (Some err, s)
      | Inr terraformSource \<Rightarrow>
          (case downloadTerraformSourceIfNecessary env terraformSource terragruntConfig s of
             (Some err, s1) \<Rightarrow> (Some err, s1)
           | (None, s1) \<Rightarrow>
               (let s2 = emit (Log (''Copying files from '' @ WorkingDir (opts s1) @ '' into '' @
                            TerraformSource.WorkingDir terraformSource)) s1;
                    s3 = emit (CopyFolderContentsCall (WorkingDir (opts s2))
                            (TerraformSource.WorkingDir terraformSource) MODULE_MANIFEST_NAME) s2
                in case CopyFolderContents env (WorkingDir (opts s3))
                          (TerraformSource.WorkingDir terraformSource) MODULE_MANIFEST_NAME
                          (world s3) of
                     (Some err, w) \<Rightarrow> (Some err, s3\<lparr>world := w\<rparr>)
                   | (None, w) \<Rightarrow>
                       (let s4 = emit (Log (''Setting working directory to '' @
                                    TerraformSource.WorkingDir terraformSource))
                                  (s3\<lparr>world := w\<rparr>)
                        in (None, s4\<lparr>opts := (opts s4)
                              \<lparr>WorkingDir := TerraformSource.WorkingDir terraformSource\<rparr>\<rparr>)))))"

definition getTerraformSourceUrl :: "TerragruntOptions \<Rightarrow> TerragruntConfig \<Rightarrow> string" where
  "getTerraformSourceUrl terragruntOptions terragruntConfig =
     (if Source terragruntOptions \<noteq> []
      then Source terragruntOptions
      else (case Terraform terragruntConfig of
              None \<Rightarrow> []
            | Some tf \<Rightarrow> (case TerraformSourceRef tf of None \<Rightarrow> [] | Some src \<Rightarrow> src)))"

text \<open>The cache oracle of the specification: fetch unless the latest code is there.\<close>

definition shouldFetch ::
  "('w, 'g) env \<Rightarrow> TerraformSource \<Rightarrow> ('w, 'g) sys \<Rightarrow> error + bool" where
  "shouldFetch env terraformSource s =
     (case fst (alreadyHaveLatestCode env terraformSource s) of
        Inl err \<Rightarrow> Inl err
      | Inr alreadyLatest \<Rightarrow> Inr (\<not> alreadyLatest))"

subsection \<open>A filesystem for the collaborators\<close>

text \<open>
  A small world to run the acquisition in: regular files with their contents,
  directories, and the tree each remote URL serves (directories and files, relative to
  the root of the module). \<open>globOther\<close> holds the matches of the glob patterns that
  \<open>fsGlob\<close> below does not interpret; a pattern it does not hold is malformed.
\<close>

record fsworld =
  files :: "(path \<times> string) list"
  dirs :: "path list"
  remote :: "(url \<times> path list \<times> (path \<times> string) list) list"
  globOther :: "(string \<times> path list) list"

definition slash :: char where
  "slash = CHR ''/''"

text \<open>\<open>within p q\<close>: \<open>q\<close> is \<open>p\<close> or lies below it.\<close>

definition within :: "path \<Rightarrow> path \<Rightarrow> bool" where
  "within p q = (q = p \<or> prefix (p @ [slash]) q)"

text \<open>
  The name of \<open>q\<close> as an entry of the directory \<open>d\<close>, when it is one: what
  \<^verbatim>\<open>Readdirnames\<close> lists, and \<open>q\<close> is \<^verbatim>\<open>filepath.Join(d, name)\<close>.
\<close>

definition child_name :: "path \<Rightarrow> path \<Rightarrow> string option" where
  "child_name d q =
     (let d' = (if d = [slash] then d else d @ [slash]);
          n = drop (length d') q
      in if prefix d' q \<and> n \<noteq> [] \<and> slash \<notin> set n then Some n else None)"

definition entries :: "fsworld \<Rightarrow> path list" where
  "entries w = map fst (files w) @ dirs w"

text \<open>\<^verbatim>\<open>filepath.Split\<close>: the pattern up to its last separator, and the rest.\<close>

definition Split :: "string \<Rightarrow> string \<times> string" where
  "Split p = (rev (dropWhile (\<lambda>c. c \<noteq> slash) (rev p)), rev (takeWhile (\<lambda>c. c \<noteq> slash) (rev p)))"

text \<open>\<^verbatim>\<open>cleanGlobPath\<close> of \<^verbatim>\<open>path/filepath\<close>.\<close>

definition cleanGlobPath :: "string \<Rightarrow> string" where
  "cleanGlobPath p = (if p = [] then ''.'' else if p = [slash] then p else butlast p)"

text \<open>\<^verbatim>\<open>hasMeta\<close> of \<^verbatim>\<open>path/filepath\<close>: one of the characters \<^verbatim>\<open>*?[\<close> or a backslash.\<close>

definition hasMeta :: "string \<Rightarrow> bool" where
  "hasMeta p = list_ex (\<lambda>c. c = CHR ''*'' \<or> c = CHR ''?'' \<or> c = CHR ''['' \<or> c = CHR 0x5C) p"

text \<open>
  \<^verbatim>\<open>filepath.Glob\<close> of the Go library on this world, for the patterns this file builds:
  a last element \<^verbatim>\<open>*.tf\<close> after a directory part without metacharacters. Then the
  matches are the entries of that directory (none if it is not a directory) whose name
  ends in \<^verbatim>\<open>.tf\<close>, since \<^verbatim>\<open>*\<close> matches any run of characters of a name, also the empty
  one. Go returns them sorted; they are listed here in the order of the world. Any other
  pattern is answered by \<open>globOther\<close>.
\<close>

definition ErrBadPattern :: error where
  "ErrBadPattern = Err ''syntax error in pattern''"

definition tfFilesIn :: "fsworld \<Rightarrow> path \<Rightarrow> path list" where
  "tfFilesIn w d =
     filter (\<lambda>q. case child_name d q of None \<Rightarrow> False | Some n \<Rightarrow> suffix ''.tf'' n) (entries w)"

definition fsGlob :: "fsworld \<Rightarrow> string \<Rightarrow> error + path list" where
  "fsGlob w pattern =
     (case Split pattern of
        (dir, file) \<Rightarrow>
          if file = ''*.tf'' \<and> \<not> hasMeta dir
          then (let d = cleanGlobPath dir
                in if d \<in> set (dirs w) then Inr (tfFilesIn w d) else Inr [])
          else (case map_of (globOther w) pattern of
                  None \<Rightarrow> Inl ErrBadPattern
                | Some matches \<Rightarrow> Inr matches))"

text \<open>
  Modelled from the spec: \<^verbatim>\<open>util.FileExists\<close> and the methods \<^verbatim>\<open>ReadVersionFile\<close> and
  \<^verbatim>\<open>WriteVersionFile\<close> of the source descriptor are not in the source given. Section 3
  of the specification: the marker is one file holding the fingerprint of the canonical
  URL, written after a fetch and read on the next run. Reading fails when the path is
  not a regular file, writing when it is a directory.
\<close>

definition fsFileExists :: "fsworld \<Rightarrow> path \<Rightarrow> bool" where
  "fsFileExists w p = (p \<in> set (entries w))"

definition fsReadVersionFile :: "fsworld \<Rightarrow> TerraformSource \<Rightarrow> error + string" where
  "fsReadVersionFile w src =
     (case map_of (files w) (VersionFile src) of
        None \<Rightarrow> Inl (Err (''read '' @ VersionFile src))
      | Some c \<Rightarrow> Inr c)"

definition fsWriteVersionFile ::
  "(url \<Rightarrow> string) \<Rightarrow> TerraformSource \<Rightarrow> fsworld \<Rightarrow> error option \<times> fsworld" where
  "fsWriteVersionFile encode src w =
     (if VersionFile src \<in> set (dirs w)
      then (Some (Err (''write '' @ VersionFile src)), w)
      else (None, w\<lparr>files := AList.update (VersionFile src)
                               (encode (CanonicalSourceURL src)) (files w)\<rparr>))"

text \<open>\<^verbatim>\<open>os.RemoveAll\<close>: the path and everything below it is gone; a missing path is no error.\<close>

definition fsRemoveAll :: "path \<Rightarrow> fsworld \<Rightarrow> error option \<times> fsworld" where
  "fsRemoveAll p w =
     (None, w\<lparr>files := filter (\<lambda>(q, c). \<not> within p q) (files w),
              dirs := filter (\<lambda>q. \<not> within p q) (dirs w)\<rparr>)"

text \<open>
  Modelled from the spec: \<^verbatim>\<open>util.CopyFolderContents\<close> is not in the source given.
  Section 6 of the specification: \<^verbatim>\<open>copyTree(fromDir, toDir, excludeName)\<close> copies the
  files of the source tree into the destination, but for the excluded manifest.
\<close>

definition fsCopyFolderContents ::
  "path \<Rightarrow> path \<Rightarrow> string \<Rightarrow> fsworld \<Rightarrow> error option \<times> fsworld" where
  "fsCopyFolderContents fromDir toDir excludeName w =
     (if fromDir \<notin> set (dirs w)
      then (Some (Err (''open '' @ fromDir)), w)
      else (None,
            w\<lparr>files := fold (\<lambda>(q, c) fs.
                           if prefix (fromDir @ [slash]) q \<and>
                              drop (Suc (length fromDir)) q \<noteq> excludeName
                           then AList.update (toDir @ [slash] @ drop (Suc (length fromDir)) q) c fs
                           else fs)
                        (files w) (files w),
              dirs := List.insert toDir (dirs w)\<rparr>))"

text \<open>
  The transfer of go-getter: the tree the URL serves is written below the destination;
  a URL that serves nothing is an error.
\<close>

definition fsClientGet ::
  "path \<Rightarrow> url \<Rightarrow> 'g getter_table option \<Rightarrow> fsworld \<Rightarrow> error option \<times> fsworld" where
  "fsClientGet dst src getters w =
     (case map_of (remote w) src of
        None \<Rightarrow> (Some (Err (''get '' @ src)), w)
      | Some (ds, fs) \<Rightarrow>
          (None,
           w\<lparr>files := fold (\<lambda>(n, c). AList.update (dst @ [slash] @ n) c) fs (files w),
             dirs := List.insert dst (fold (\<lambda>n. List.insert (dst @ [slash] @ n)) ds (dirs w))\<rparr>))"

text \<open>
  The collaborators on this world. The source resolver is a table from references to
  descriptors; a canonical URL is local when its scheme is \<^verbatim>\<open>file\<close>; the fingerprint is
  any function \<open>encode\<close> of the canonical URL; no hooks are configured.
\<close>

definition fsEnv ::
  "(string \<times> TerraformSource) list \<Rightarrow> (url \<Rightarrow> string) \<Rightarrow> (fsworld, 'g) env" where
  "fsEnv table encode =
     \<lparr>ProcessTerraformSource = (\<lambda>source terragruntOptions.
          case map_of table source of
            None \<Rightarrow> Inl (Err (''source '' @ source))
          | Some src \<Rightarrow> Inr src),
      IsLocalSource = prefix ''file://'',
      EncodeSourceVersion = encode,
      FileExists = fsFileExists,
      Glob = fsGlob,
      ReadVersionFile = fsReadVersionFile,
      WriteVersionFile = fsWriteVersionFile encode,
      RemoveAll = fsRemoveAll,
      CopyFolderContents = fsCopyFolderContents,
      Clone = (\<lambda>terragruntOptions terragruntConfigPath.
          terragruntOptions\<lparr>TerragruntConfigPath := terragruntConfigPath\<rparr>),
      ProcessBeforeHooks = (\<lambda>terragruntOptions terragruntConfig w. (None, w)),
      ProcessAfterHooks = (\<lambda>terragruntOptions terragruntConfig w. (None, w)),
      ClientGet = fsClientGet,
      OPT_TERRAGRUNT_SOURCE_UPDATE = ''terragrunt-source-update''\<rparr>"

subsection \<open>Worlds and sources to run the acquisition on\<close>

text \<open>
  A remote module pinned to a revision and a module on the local disk, the options of
  an operator in \<^verbatim>\<open>/live\<close>, and worlds before and after a download of the remote module.
\<close>

definition remoteRef :: string where
  "remoteRef = ''git::https://example/mod.git?ref=v1''"

definition remoteSrc :: TerraformSource where
  "remoteSrc = \<lparr>CanonicalSourceURL = remoteRef,
     DownloadDir = ''/cache/m1'', WorkingDir = ''/cache/m1'',
     VersionFile = ''/cache/m1/.terragrunt-source-version''\<rparr>"

definition localSrc :: TerraformSource where
  "localSrc = \<lparr>CanonicalSourceURL = ''file:///mod'',
     DownloadDir = ''/cache/m2'', WorkingDir = ''/cache/m2'',
     VersionFile = ''/cache/m2/.terragrunt-source-version''\<rparr>"

text \<open>A remote module written in JSON, with a Terraform file in a subdirectory only.\<close>

definition jsonRef :: string where
  "jsonRef = ''git::https://example/json.git?ref=v1''"

definition jsonSrc :: TerraformSource where
  "jsonSrc = \<lparr>CanonicalSourceURL = jsonRef,
     DownloadDir = ''/cache/m4'', WorkingDir = ''/cache/m4'',
     VersionFile = ''/cache/m4/.terragrunt-source-version''\<rparr>"

definition fingerprint :: "url \<Rightarrow> string" where
  "fingerprint u = ''F('' @ u @ '')''"

definition testEnv :: "(fsworld, nat) env" where
  "testEnv = fsEnv [(remoteRef, remoteSrc), (''../mod'', localSrc), (jsonRef, jsonSrc)]
     fingerprint"

definition testOpts :: TerragruntOptions where
  "testOpts = \<lparr>Source = [], SourceUpdate = False, WorkingDir = ''/live'',
     TerragruntConfigPath = ''/live/terragrunt.hcl'', TerraformCommand = ''plan''\<rparr>"

definition testConfig :: TerragruntConfig where
  "testConfig = \<lparr>Terraform = Some \<lparr>TerraformSourceRef = Some remoteRef\<rparr>\<rparr>"

definition freshWorld :: fsworld where
  "freshWorld = \<lparr>files = [(''/live/terragrunt.hcl'', ''terraform {}'')],
     dirs = [''/live'', ''/cache''],
     remote = [(remoteRef, ([], [(''main.tf'', ''resource'')])),
       (jsonRef, ([''modules''], [(''main.tf.json'', ''{}''), (''modules/vpc.tf'', ''resource'')]))],
     globOther = []\<rparr>"

definition cachedWorld :: fsworld where
  "cachedWorld = \<lparr>files = [(''/cache/m1/main.tf'', ''resource''),
       (''/cache/m1/.terragrunt-source-version'', fingerprint remoteRef),
       (''/cache/m2/main.tf'', ''resource''),
       (''/cache/m2/.terragrunt-source-version'', fingerprint ''file:///mod''),
       (''/live/terragrunt.hcl'', ''terraform {}'')],
     dirs = [''/cache/m1'', ''/cache/m2'', ''/live'', ''/cache''],
     remote = [(remoteRef, ([], [(''main.tf'', ''resource'')]))],
     globOther = []\<rparr>"

definition defaultGetters :: "nat getter_table" where
  "defaultGetters = [(''file'', DefaultGetter 0), (''git'', DefaultGetter 1),
     (''http'', DefaultGetter 2)]"

definition startIn :: "fsworld \<Rightarrow> TerragruntOptions \<Rightarrow> (fsworld, nat) sys" where
  "startIn w terragruntOptions =
     \<lparr>world = w, opts = terragruntOptions, maps = [defaultGetters], trace = []\<rparr>"

subsection \<open>Counting the calls of a trace\<close>

fun isFetch :: "event \<Rightarrow> bool" where
  "isFetch (GetAnyCall dst src) = True"
| "isFetch ev = False"



definition fetchCalls :: "event list \<Rightarrow> nat" where
  "fetchCalls tr = length (filter isFetch tr)"



text \<open>A module whose working directory is a subdirectory with a bracket in its name.\<close>

definition bracketRef :: string where
  "bracketRef = ''git::https://example/mods.git//mod[1?ref=v1''"

definition bracketSrc :: TerraformSource where
  "bracketSrc = \<lparr>CanonicalSourceURL = bracketRef,
     DownloadDir = ''/cache/m3'', WorkingDir = ''/cache/m3/mod[1'',
     VersionFile = ''/cache/m3/.terragrunt-source-version''\<rparr>"

text \<open>
  A world in which the marker of the first module is a directory, so that it exists
  and cannot be read, and the second module has been downloaded.
\<close>

definition brokenWorld :: fsworld where
  "brokenWorld = \<lparr>files = [(''/cache/m1/main.tf'', ''resource''),
       (''/cache/m3/mod[1/main.tf'', ''resource''),
       (''/cache/m3/.terragrunt-source-version'', fingerprint bracketRef),
       (''/live/terragrunt.hcl'', ''terraform {}'')],
     dirs = [''/cache/m1'', ''/cache/m1/.terragrunt-source-version'',
       ''/cache/m3'', ''/cache/m3/mod[1'', ''/live'', ''/cache''],
     remote = [(remoteRef, ([], [(''main.tf'', ''resource'')]))],
     globOther = []\<rparr>"

definition brokenEnv :: "(fsworld, nat) env" where
  "brokenEnv = fsEnv [(remoteRef, remoteSrc), (bracketRef, bracketSrc)] fingerprint"

subsection \<open>The order of the calls\<close>

text \<open>
  The steps of an acquisition, numbered in the order of the specification: removal of
  the download directory (0), cache check (1), before hooks (2), fetch (3), after hooks
  (4), write of the version file (5), overlay copy (6). A log line is no step.
\<close>

fun phase :: "event \<Rightarrow> nat option" where
  "phase (Log msg) = None"
| "phase (RemoveAllCall p) = Some 0"
| "phase CacheCheck = Some 1"
| "phase (BeforeHooksCall terragruntOptions) = Some 2"
| "phase (GetAnyCall dst src) = Some 3"
| "phase (AfterHooksCall terragruntOptions) = Some 4"
| "phase (WriteVersionFileCall p) = Some 5"
| "phase (CopyFolderContentsCall fromDir toDir excludeName) = Some 6"

definition phases :: "event list \<Rightarrow> nat list" where
  "phases evs = List.map_filter phase evs"

text \<open>The options a hook call was made with.\<close>

fun hookOptions :: "event \<Rightarrow> TerragruntOptions option" where
  "hookOptions (BeforeHooksCall terragruntOptions) = Some terragruntOptions"
| "hookOptions (AfterHooksCall terragruntOptions) = Some terragruntOptions"
| "hookOptions ev = None"

text \<open>The events of a run that started in \<open>s\<close> and ended in \<open>s'\<close>.\<close>

definition newEvents :: "('w, 'g) sys \<Rightarrow> ('w, 'g) sys \<Rightarrow> event list" where
  "newEvents s s' = drop (length (trace s)) (trace s')"

text \<open>
  Collaborators whose \<^verbatim>\<open>os.RemoveAll\<close> is refused, the options of a forced update, and
  the options of an operator whose working directory is missing.
\<close>

definition lockedEnv :: "(fsworld, nat) env" where
  "lockedEnv = testEnv\<lparr>RemoveAll := (\<lambda>p w. (Some (Err (''unlinkat '' @ p)), w))\<rparr>"

definition forcedOpts :: TerragruntOptions where
  "forcedOpts = testOpts\<lparr>SourceUpdate := True\<rparr>"

definition goneOpts :: TerragruntOptions where
  "goneOpts = testOpts\<lparr>WorkingDir := ''/gone''\<rparr>"

text \<open>A world in which the remote module cannot be reached.\<close>

definition offlineWorld :: fsworld where
  "offlineWorld = freshWorld\<lparr>remote := []\<rparr>"


text \<open>
  The getters a download runs with: what \<^verbatim>\<open>getter.GetAny\<close> hands to the transfer after
  it has applied \<^verbatim>\<open>copyFiles\<close> to a new client, in a store \<open>ms\<close>.
\<close>

definition downloadGetters :: "'g map_store \<Rightarrow> 'g getter_table option" where
  "downloadGetters ms =
     (case copyFiles (ms, \<lparr>Getters = None\<rparr>) of
        (err, ms', client) \<Rightarrow> map_option (table_of ms') (Getters client))"

text \<open>Collaborators with a before hook that fails.\<close>

definition hookFailEnv :: "(fsworld, nat) env" where
  "hookFailEnv = testEnv\<lparr>ProcessBeforeHooks :=
     (\<lambda>terragruntOptions terragruntConfig w. (Some (Err ''before hook failed''), w))\<rparr>"








section \<open>Properties\<close>

subsection \<open>Events and state\<close>

lemma trace_emit [simp]: "trace (emit ev s) = trace s @ [ev]"
  by (simp add: emit_def)

lemma world_emit [simp]: "world (emit ev s) = world s"
  by (simp add: emit_def)

lemma opts_emit [simp]: "opts (emit ev s) = opts s"
  by (simp add: emit_def)

lemma maps_emit [simp]: "maps (emit ev s) = maps s"
  by (simp add: emit_def)

lemma removeOnSourceUpdate_fetchCalls:
  "removeOnSourceUpdate env src s = (r, s1) \<Longrightarrow> fetchCalls (trace s1) = fetchCalls (trace s)"
  by (auto simp: removeOnSourceUpdate_def fetchCalls_def Let_def split: if_splits prod.splits)

lemma phases_simps [simp]:
  "phases [] = []"
  "phases (ev # evs) = (case phase ev of None \<Rightarrow> phases evs | Some n \<Rightarrow> n # phases evs)"
  "phases (evs @ evs') = phases evs @ phases evs'"
  by (simp_all add: phases_def map_filter_def split: option.splits)

lemma GetAny_frame:
  "GetAny env dst u clientOption s = (r, s') \<Longrightarrow> trace s' = trace s \<and> opts s' = opts s"
  by (auto simp: GetAny_def split: prod.splits option.splits)

lemma downloadSource_frame:
  assumes "downloadSource env src cfg s = (r, s')"
  shows "trace s' = trace s @
           [Log (''Downloading Terraform configurations from '' @ CanonicalSourceURL src @
              '' into '' @ DownloadDir src),
            GetAnyCall (DownloadDir src) (CanonicalSourceURL src)] \<and>
         opts s' = opts s"
  using assms
  by (auto simp: downloadSource_def Let_def split: prod.splits option.splits dest!: GetAny_frame)

lemma removeOnSourceUpdate_trace:
  assumes "removeOnSourceUpdate env src s = (r, s1)"
  shows "\<exists>evs. trace s1 = trace s @ evs \<and> phases evs \<in> {[], [0]} \<and>
           (\<forall>ev\<in>set evs. hookOptions ev = None)"
  using assms
  by (auto simp: removeOnSourceUpdate_def Let_def split: if_splits prod.splits)

lemma alreadyHaveLatestCode_trace:
  assumes "alreadyHaveLatestCode env src s = (r, s1)"
  shows "\<exists>evs. trace s1 = trace s @ evs \<and> phases evs = [] \<and>
           (\<forall>ev\<in>set evs. hookOptions ev = None)"
  using assms
  by (auto simp: alreadyHaveLatestCode_def Let_def split: if_splits sum.splits)

lemma downloadAndMark_trace:
  assumes "downloadAndMark env src cfg s = (r, s')"
  shows "\<exists>evs. trace s' = trace s @ evs \<and>
           phases evs \<in> {[2], [2, 3], [2, 3, 4], [2, 3, 4, 5]} \<and>
           (r = None \<longrightarrow> phases evs = [2, 3, 4, 5]) \<and>
           (\<forall>ev\<in>set evs. \<forall>terragruntOptions. hookOptions ev = Some terragruntOptions \<longrightarrow>
              terragruntOptions = (Clone env (opts s) (TerragruntConfigPath (opts s)))
                \<lparr>TerraformCommand := CMD_INIT_FROM_MODULE\<rparr>)"
  using assms
  by (auto simp: downloadAndMark_def runActionWithHooks_def Let_def
      split: prod.splits option.splits dest!: downloadSource_frame)


lemma newEvents_append: "trace s' = trace s @ evs \<Longrightarrow> newEvents s s' = evs"
  by (simp add: newEvents_def)

lemma downloadTerraformSourceIfNecessary_trace:
  assumes "downloadTerraformSourceIfNecessary env src cfg s = (r, s')"
  shows "\<exists>evs. trace s' = trace s @ evs \<and>
           phases evs \<in> {[0], [1], [0, 1], [1, 2], [0, 1, 2], [1, 2, 3], [0, 1, 2, 3],
             [1, 2, 3, 4], [0, 1, 2, 3, 4], [1, 2, 3, 4, 5], [0, 1, 2, 3, 4, 5]} \<and>
           (r = None \<longrightarrow> phases evs \<in> {[1], [0, 1], [1, 2, 3, 4, 5], [0, 1, 2, 3, 4, 5]}) \<and>
           (\<forall>ev\<in>set evs. \<forall>terragruntOptions. hookOptions ev = Some terragruntOptions \<longrightarrow>
              terragruntOptions = (Clone env (opts s) (TerragruntConfigPath (opts s)))
                \<lparr>TerraformCommand := CMD_INIT_FROM_MODULE\<rparr>)"
proof -
  obtain r1 s1 where pre: "removeOnSourceUpdate env src s = (r1, s1)"
    by (cases "removeOnSourceUpdate env src s")
  from removeOnSourceUpdate_trace [OF pre] obtain evs1 where
    e1: "trace s1 = trace s @ evs1" "phases evs1 \<in> {[], [0]}"
      "\<forall>ev\<in>set evs1. hookOptions ev = None"
    by blast
  have o1: "opts s1 = opts s"
    using pre by (auto simp: removeOnSourceUpdate_def Let_def split: if_splits prod.splits)
  show ?thesis
  proof (cases r1)
    case (Some e)
    then have "s' = s1" "SourceUpdate (opts s)" "r = Some e"
      using assms pre
      by (auto simp: downloadTerraformSourceIfNecessary_def removeOnSourceUpdate_def
          split: if_splits)
    then have "phases evs1 = [0]"
      using pre e1(1) by (auto simp: removeOnSourceUpdate_def Let_def split: prod.splits)
    then show ?thesis using e1 \<open>s' = s1\<close> \<open>r = Some e\<close> by auto
  next
    case None
    obtain r2 s2 where cc: "alreadyHaveLatestCode env src (emit CacheCheck s1) = (r2, s2)"
      by (cases "alreadyHaveLatestCode env src (emit CacheCheck s1)")
    from alreadyHaveLatestCode_trace [OF cc] obtain evs2 where
      e2: "trace s2 = trace s1 @ [CacheCheck] @ evs2" "phases evs2 = []"
        "\<forall>ev\<in>set evs2. hookOptions ev = None"
      by auto
    have o2: "opts s2 = opts s"
      using cc o1 by (auto simp: alreadyHaveLatestCode_def Let_def split: if_splits sum.splits)
    show ?thesis
    proof (cases r2)
      case (Inl e)
      then have "s' = s2"
        using assms pre None cc by (simp add: downloadTerraformSourceIfNecessary_def)
      moreover have "r \<noteq> None"
        using assms pre None cc Inl by (auto simp add: downloadTerraformSourceIfNecessary_def)
      ultimately show ?thesis using e1 e2 by auto
    next
      case (Inr alreadyLatest)
      show ?thesis
      proof (cases alreadyLatest)
        case True
        then have "trace s' = trace s2 @ [Log (''Terraform files in '' @
            TerraformSource.WorkingDir src @ '' are up to date. Will not download again.'')]"
          using assms pre None cc Inr by (auto simp: downloadTerraformSourceIfNecessary_def)
        then show ?thesis using e1 e2 by auto
      next
        case False
        then have dm: "downloadAndMark env src cfg s2 = (r, s')"
          using assms pre None cc Inr by (simp add: downloadTerraformSourceIfNecessary_def)
        from downloadAndMark_trace [OF dm] obtain evs3 where
          e3: "trace s' = trace s2 @ evs3"
            "phases evs3 \<in> {[2], [2, 3], [2, 3, 4], [2, 3, 4, 5]}"
            "r = None \<longrightarrow> phases evs3 = [2, 3, 4, 5]"
            "\<forall>ev\<in>set evs3. \<forall>terragruntOptions. hookOptions ev = Some terragruntOptions \<longrightarrow>
              terragruntOptions = (Clone env (opts s2) (TerragruntConfigPath (opts s2)))
                \<lparr>TerraformCommand := CMD_INIT_FROM_MODULE\<rparr>"
          by blast
        have t: "trace s' = trace s @ (evs1 @ [CacheCheck] @ evs2 @ evs3)"
          using e1(1) e2(1) e3(1) by simp
        have p: "phases (evs1 @ [CacheCheck] @ evs2 @ evs3) = phases evs1 @ [1] @ phases evs3"
          using e2(2) by simp
        show ?thesis
          apply (rule exI [of _ "evs1 @ [CacheCheck] @ evs2 @ evs3"])
          apply (simp only: p)
          using t e1(2,3) e2(3) e3(2,3,4) o2 by auto
      qed
    qed
  qed
qed


lemma removeOnSourceUpdate_opts:
  "removeOnSourceUpdate env src s = (r, s1) \<Longrightarrow> opts s1 = opts s"
  by (auto simp: removeOnSourceUpdate_def Let_def split: if_splits prod.splits)

lemma alreadyHaveLatestCode_frame:
  "alreadyHaveLatestCode env src s = (r, s1) \<Longrightarrow>
     opts s1 = opts s \<and> world s1 = world s \<and> maps s1 = maps s"
  by (auto simp: alreadyHaveLatestCode_def Let_def split: if_splits sum.splits)

lemma runActionWithHooks_opts:
  assumes "runActionWithHooks env d o1 cfg action s = (r, s')"
    and "\<And>t r' t'. action t = (r', t') \<Longrightarrow> opts t' = opts t"
  shows "opts s' = opts s"
  using assms
  by (fastforce simp: runActionWithHooks_def Let_def split: prod.splits option.splits)

lemma downloadAndMark_opts:
  assumes "downloadAndMark env src cfg s = (r, s')"
  shows "opts s' = opts s"
proof -
  have a: "opts t' = opts t" if "downloadSource env src cfg t = (r', t')" for t r' t'
    using downloadSource_frame [OF that] by simp
  show ?thesis
    using assms
    by (auto simp: downloadAndMark_def Let_def split: prod.splits option.splits
        dest!: runActionWithHooks_opts [OF _ a])
qed

lemma downloadTerraformSourceIfNecessary_opts:
  assumes "downloadTerraformSourceIfNecessary env src cfg s = (r, s')"
  shows "opts s' = opts s"
  using assms
  by (auto simp: downloadTerraformSourceIfNecessary_def
      split: prod.splits option.splits sum.splits if_splits
      dest!: removeOnSourceUpdate_opts alreadyHaveLatestCode_frame downloadAndMark_opts)

lemma downloadTerraformSource_trace:
  assumes "downloadTerraformSource env source cfg s = (r, s')"
  shows "\<exists>evs. trace s' = trace s @ evs \<and>
           phases evs \<in> {[], [0], [1], [0, 1], [1, 2], [0, 1, 2], [1, 2, 3], [0, 1, 2, 3],
             [1, 2, 3, 4], [0, 1, 2, 3, 4], [1, 2, 3, 4, 5], [0, 1, 2, 3, 4, 5],
             [1, 6], [0, 1, 6], [1, 2, 3, 4, 5, 6], [0, 1, 2, 3, 4, 5, 6]}"
proof (cases "ProcessTerraformSource env source (opts s)")
  case (Inl e)
  then show ?thesis using assms by (auto simp: downloadTerraformSource_def)
next
  case (Inr src)
  obtain r1 s1 where n: "downloadTerraformSourceIfNecessary env src cfg s = (r1, s1)"
    by (cases "downloadTerraformSourceIfNecessary env src cfg s")
  from downloadTerraformSourceIfNecessary_trace [OF n] obtain evs where
    e: "trace s1 = trace s @ evs"
      "phases evs \<in> {[0], [1], [0, 1], [1, 2], [0, 1, 2], [1, 2, 3], [0, 1, 2, 3],
             [1, 2, 3, 4], [0, 1, 2, 3, 4], [1, 2, 3, 4, 5], [0, 1, 2, 3, 4, 5]}"
      "r1 = None \<longrightarrow> phases evs \<in> {[1], [0, 1], [1, 2, 3, 4, 5], [0, 1, 2, 3, 4, 5]}"
    by blast
  show ?thesis
  proof (cases r1)
    case (Some err)
    then have "s' = s1"
      using assms Inr n by (simp add: downloadTerraformSource_def)
    then show ?thesis using e by auto
  next
    case None
    then have "\<exists>evs'. trace s' = trace s1 @ evs' \<and> phases evs' = [6]"
      using assms Inr n
      by (auto simp: downloadTerraformSource_def Let_def split: prod.splits option.splits)
    then obtain evs' where e': "trace s' = trace s1 @ evs'" "phases evs' = [6]"
      by blast
    have "trace s' = trace s @ (evs @ evs')"
      using e(1) e'(1) by simp
    moreover have "phases (evs @ evs') \<in> {[1, 6], [0, 1, 6], [1, 2, 3, 4, 5, 6], [0, 1, 2, 3, 4, 5, 6]}"
      using e(3) e'(2) None by auto
    ultimately show ?thesis by blast
  qed
qed

lemma fetchCalls_append [simp]: "fetchCalls (xs @ ys) = fetchCalls xs + fetchCalls ys"
  by (simp add: fetchCalls_def)

lemma fetchCalls_phases: "fetchCalls evs = count_list (phases evs) 3"
proof (induction evs)
  case Nil
  then show ?case by (simp add: fetchCalls_def)
next
  case (Cons ev evs)
  then show ?case by (cases ev) (simp_all add: fetchCalls_def)
qed

subsection \<open>The cache check\<close>

text \<open>
  C1. For a remote source whose download directory, working directory and version file
  exist and whose working directory holds at least one file matching \<^verbatim>\<open>*.tf\<close>, with the
  version file holding \<open>previousVersion\<close>: \<^verbatim>\<open>alreadyHaveLatestCode\<close> returns whether
  \<open>previousVersion\<close> is the fingerprint of the canonical source URL, so a fetch is
  required exactly when the two differ.
\<close>

theorem cache_check_compares_fingerprints:
  assumes "\<not> IsLocalSource env (CanonicalSourceURL src)"
    and "FileExists env (world s) (DownloadDir src)"
    and "FileExists env (world s) (TerraformSource.WorkingDir src)"
    and "FileExists env (world s) (VersionFile src)"
    and "Glob env (world s) (TerraformSource.WorkingDir src @ ''/*.tf'') = Inr tfFiles"
    and "tfFiles \<noteq> []"
    and "ReadVersionFile env (world s) src = Inr previousVersion"
  shows "alreadyHaveLatestCode env src s =
           (Inr (previousVersion = EncodeSourceVersion env (CanonicalSourceURL src)), s) \<and>
         shouldFetch env src s =
           Inr (previousVersion \<noteq> EncodeSourceVersion env (CanonicalSourceURL src))"
  using assms by (simp add: alreadyHaveLatestCode_def shouldFetch_def)

theorem cache_check_compares_fingerprints_witness:
  "\<not> IsLocalSource testEnv (CanonicalSourceURL remoteSrc) \<and>
   FileExists testEnv cachedWorld (DownloadDir remoteSrc) \<and>
   FileExists testEnv cachedWorld (TerraformSource.WorkingDir remoteSrc) \<and>
   FileExists testEnv cachedWorld (VersionFile remoteSrc) \<and>
   Glob testEnv cachedWorld (TerraformSource.WorkingDir remoteSrc @ ''/*.tf'') =
     Inr [''/cache/m1/main.tf''] \<and>
   ReadVersionFile testEnv cachedWorld remoteSrc = Inr (fingerprint remoteRef) \<and>
   EncodeSourceVersion testEnv (CanonicalSourceURL remoteSrc) = fingerprint remoteRef \<and>
   shouldFetch testEnv remoteSrc (startIn cachedWorld testOpts) = Inr False"
proof -
  let ?s = "startIn cachedWorld testOpts"
  have w: "world ?s = cachedWorld"
    by (simp add: startIn_def)
  have h1: "\<not> IsLocalSource testEnv (CanonicalSourceURL remoteSrc)"
    by code_simp
  have h2: "FileExists testEnv (world ?s) (DownloadDir remoteSrc)"
    by code_simp
  have h3: "FileExists testEnv (world ?s) (TerraformSource.WorkingDir remoteSrc)"
    by code_simp
  have h4: "FileExists testEnv (world ?s) (VersionFile remoteSrc)"
    by code_simp
  have h5: "Glob testEnv (world ?s) (TerraformSource.WorkingDir remoteSrc @ ''/*.tf'') =
      Inr [''/cache/m1/main.tf'']"
    by code_simp
  have h6: "[''/cache/m1/main.tf''] \<noteq> []"
    by simp
  have h7: "ReadVersionFile testEnv (world ?s) remoteSrc = Inr (fingerprint remoteRef)"
    by code_simp
  have e: "EncodeSourceVersion testEnv (CanonicalSourceURL remoteSrc) = fingerprint remoteRef"
    by code_simp
  show ?thesis
    using cache_check_compares_fingerprints [OF h1 h2 h3 h4 h5 h6 h7] h1 h2 h3 h4 h5 h7 e w
    by simp
qed

text \<open>
  C2. For a source whose canonical URL is a local path, \<^verbatim>\<open>alreadyHaveLatestCode\<close>
  returns false, without an error and without a change of state, whatever the world
  holds: a fetch is required.
\<close>

theorem local_source_always_fetched:
  assumes "IsLocalSource env (CanonicalSourceURL src)"
  shows "alreadyHaveLatestCode env src s = (Inr False, s) \<and> shouldFetch env src s = Inr True"
  using assms by (simp add: alreadyHaveLatestCode_def shouldFetch_def)

theorem local_source_always_fetched_witness:
  "IsLocalSource testEnv (CanonicalSourceURL localSrc) \<and>
   FileExists testEnv cachedWorld (DownloadDir localSrc) \<and>
   FileExists testEnv cachedWorld (TerraformSource.WorkingDir localSrc) \<and>
   FileExists testEnv cachedWorld (VersionFile localSrc) \<and>
   ReadVersionFile testEnv cachedWorld localSrc =
     Inr (EncodeSourceVersion testEnv (CanonicalSourceURL localSrc)) \<and>
   alreadyHaveLatestCode testEnv localSrc (startIn cachedWorld testOpts) =
     (Inr False, startIn cachedWorld testOpts) \<and>
   shouldFetch testEnv localSrc (startIn cachedWorld testOpts) = Inr True"
proof -
  have h: "IsLocalSource testEnv (CanonicalSourceURL localSrc)"
    by code_simp
  have d: "FileExists testEnv cachedWorld (DownloadDir localSrc)"
    by code_simp
  have w: "FileExists testEnv cachedWorld (TerraformSource.WorkingDir localSrc)"
    by code_simp
  have v: "FileExists testEnv cachedWorld (VersionFile localSrc)"
    by code_simp
  have r: "ReadVersionFile testEnv cachedWorld localSrc =
      Inr (EncodeSourceVersion testEnv (CanonicalSourceURL localSrc))"
    by code_simp
  show ?thesis
    using local_source_always_fetched [OF h, of "startIn cachedWorld testOpts"] h d w v r
    by simp
qed

text \<open>
  C9. When the cache check reaches the glob of the working directory and the glob fails,
  or reaches the version file and reading it fails, \<^verbatim>\<open>alreadyHaveLatestCode\<close> returns the
  error (the one of the glob wrapped), \<^verbatim>\<open>downloadTerraformSourceIfNecessary\<close> and
  \<^verbatim>\<open>downloadTerraformSource\<close> return it, and the state they leave is the one the cache
  check started in: nothing is fetched.
\<close>

theorem cache_check_error_aborts:
  assumes pre: "removeOnSourceUpdate env src s = (None, s1)"
    and remote: "\<not> IsLocalSource env (CanonicalSourceURL src)"
    and ex: "FileExists env (world s1) (DownloadDir src)"
      "FileExists env (world s1) (TerraformSource.WorkingDir src)"
      "FileExists env (world s1) (VersionFile src)"
    and fail: "(Glob env (world s1) (TerraformSource.WorkingDir src @ ''/*.tf'') = Inl err \<and>
                e = WithStackTrace err) \<or>
               (Glob env (world s1) (TerraformSource.WorkingDir src @ ''/*.tf'') = Inr tfFiles \<and>
                tfFiles \<noteq> [] \<and> ReadVersionFile env (world s1) src = Inl e)"
  shows "alreadyHaveLatestCode env src s1 = (Inl e, s1) \<and>
         downloadTerraformSourceIfNecessary env src cfg s = (Some e, emit CacheCheck s1) \<and>
         fetchCalls (trace (emit CacheCheck s1)) = fetchCalls (trace s) \<and>
         (ProcessTerraformSource env source (opts s) = Inr src \<longrightarrow>
            downloadTerraformSource env source cfg s = (Some e, emit CacheCheck s1))"
proof -
  have a: "alreadyHaveLatestCode env src t = (Inl e, t)" if "world t = world s1" for t
    using remote ex fail that by (auto simp: alreadyHaveLatestCode_def)
  have b: "downloadTerraformSourceIfNecessary env src cfg s = (Some e, emit CacheCheck s1)"
    using pre a [of "emit CacheCheck s1"] by (simp add: downloadTerraformSourceIfNecessary_def)
  have c: "fetchCalls (trace (emit CacheCheck s1)) = fetchCalls (trace s)"
    using removeOnSourceUpdate_fetchCalls [OF pre] by (simp add: fetchCalls_def)
  show ?thesis using a [of s1] b c by (simp add: downloadTerraformSource_def)
qed

theorem cache_check_error_aborts_witness:
  "removeOnSourceUpdate brokenEnv remoteSrc (startIn brokenWorld testOpts) =
     (None, startIn brokenWorld testOpts) \<and>
   FileExists brokenEnv brokenWorld (VersionFile remoteSrc) \<and>
   ReadVersionFile brokenEnv brokenWorld remoteSrc =
     Inl (Err ''read /cache/m1/.terragrunt-source-version'') \<and>
   downloadTerraformSource brokenEnv remoteRef testConfig (startIn brokenWorld testOpts) =
     (Some (Err ''read /cache/m1/.terragrunt-source-version''),
      emit CacheCheck (startIn brokenWorld testOpts)) \<and>
   Glob brokenEnv brokenWorld (TerraformSource.WorkingDir bracketSrc @ ''/*.tf'') =
     Inl (ErrBadPattern) \<and>
   downloadTerraformSource brokenEnv bracketRef testConfig (startIn brokenWorld testOpts) =
     (Some (WithStackTrace (ErrBadPattern)),
      emit CacheCheck (startIn brokenWorld testOpts))"
proof -
  let ?s = "startIn brokenWorld testOpts"
  let ?e = "Err ''read /cache/m1/.terragrunt-source-version''"
  let ?g = "ErrBadPattern"
  have w: "world ?s = brokenWorld" by (simp add: startIn_def)
  have pre1: "removeOnSourceUpdate brokenEnv remoteSrc ?s = (None, ?s)" by code_simp
  have pre3: "removeOnSourceUpdate brokenEnv bracketSrc ?s = (None, ?s)" by code_simp
  have r1: "\<not> IsLocalSource brokenEnv (CanonicalSourceURL remoteSrc)" by code_simp
  have r3: "\<not> IsLocalSource brokenEnv (CanonicalSourceURL bracketSrc)" by code_simp
  have d1: "FileExists brokenEnv (world ?s) (DownloadDir remoteSrc)" by code_simp
  have w1: "FileExists brokenEnv (world ?s) (TerraformSource.WorkingDir remoteSrc)" by code_simp
  have v1: "FileExists brokenEnv (world ?s) (VersionFile remoteSrc)" by code_simp
  have d3: "FileExists brokenEnv (world ?s) (DownloadDir bracketSrc)" by code_simp
  have w3: "FileExists brokenEnv (world ?s) (TerraformSource.WorkingDir bracketSrc)" by code_simp
  have v3: "FileExists brokenEnv (world ?s) (VersionFile bracketSrc)" by code_simp
  have g1: "Glob brokenEnv (world ?s) (TerraformSource.WorkingDir remoteSrc @ ''/*.tf'') =
      Inr [''/cache/m1/main.tf'']" by code_simp
  have rd1: "ReadVersionFile brokenEnv (world ?s) remoteSrc = Inl ?e" by code_simp
  have g3: "Glob brokenEnv (world ?s) (TerraformSource.WorkingDir bracketSrc @ ''/*.tf'') = Inl ?g"
    by code_simp
  have p1: "ProcessTerraformSource brokenEnv remoteRef (opts ?s) = Inr remoteSrc" by code_simp
  have p3: "ProcessTerraformSource brokenEnv bracketRef (opts ?s) = Inr bracketSrc" by code_simp
  have f1: "(Glob brokenEnv (world ?s) (TerraformSource.WorkingDir remoteSrc @ ''/*.tf'') = Inl ?g \<and>
      ?e = WithStackTrace ?g) \<or>
     (Glob brokenEnv (world ?s) (TerraformSource.WorkingDir remoteSrc @ ''/*.tf'') =
        Inr [''/cache/m1/main.tf''] \<and>
      [''/cache/m1/main.tf''] \<noteq> [] \<and> ReadVersionFile brokenEnv (world ?s) remoteSrc = Inl ?e)"
    using g1 rd1 by simp
  have f3: "(Glob brokenEnv (world ?s) (TerraformSource.WorkingDir bracketSrc @ ''/*.tf'') = Inl ?g \<and>
      WithStackTrace ?g = WithStackTrace ?g) \<or>
     (Glob brokenEnv (world ?s) (TerraformSource.WorkingDir bracketSrc @ ''/*.tf'') = Inr [] \<and>
      [] \<noteq> [] \<and> ReadVersionFile brokenEnv (world ?s) bracketSrc = Inl (WithStackTrace ?g))"
    using g3 by simp
  note t1 = cache_check_error_aborts [OF pre1 r1 d1 w1 v1 f1, of testConfig remoteRef]
  note t3 = cache_check_error_aborts [OF pre3 r3 d3 w3 v3 f3, of testConfig bracketRef]
  show ?thesis using t1 t3 pre1 v1 rd1 g3 p1 p3 w by simp
qed

subsection \<open>The acquisition\<close>

text \<open>
  C4. In every run of \<^verbatim>\<open>downloadTerraformSource\<close> the steps taken come in increasing
  order, each at most once: the cache check before the fetch, the fetch before the write
  of the version file, the write before the overlay copy. A fetch is never made without
  the cache check, a version file never written without a fetch. When the download run
  inside the hooks returns an error, the acquisition returns that error in the state
  the hooks left: the version file is not written and nothing is overlaid.
\<close>

theorem acquisition_steps_in_order:
  assumes "downloadTerraformSource env source cfg s = (r, s')"
  shows "sorted_wrt (<) (phases (newEvents s s')) \<and>
         (3 \<in> set (phases (newEvents s s')) \<longrightarrow> 1 \<in> set (phases (newEvents s s'))) \<and>
         (5 \<in> set (phases (newEvents s s')) \<longrightarrow> 3 \<in> set (phases (newEvents s s'))) \<and>
         (6 \<in> set (phases (newEvents s s')) \<longrightarrow> 1 \<in> set (phases (newEvents s s'))) \<and>
         (\<forall>src s1 s2 e s3.
            ProcessTerraformSource env source (opts s) = Inr src \<and>
            removeOnSourceUpdate env src s = (None, s1) \<and>
            alreadyHaveLatestCode env src (emit CacheCheck s1) = (Inr False, s2) \<and>
            runActionWithHooks env ''download source''
              ((Clone env (opts s2) (TerragruntConfigPath (opts s2)))
                 \<lparr>TerraformCommand := CMD_INIT_FROM_MODULE\<rparr>) cfg
              (downloadSource env src cfg) s2 = (Some e, s3) \<longrightarrow>
            r = Some e \<and> s' = s3 \<and> 5 \<notin> set (phases (newEvents s s')) \<and>
            6 \<notin> set (phases (newEvents s s')))"
proof -
  from downloadTerraformSource_trace [OF assms] obtain evs where
    e: "trace s' = trace s @ evs"
      "phases evs \<in> {[], [0], [1], [0, 1], [1, 2], [0, 1, 2], [1, 2, 3], [0, 1, 2, 3],
             [1, 2, 3, 4], [0, 1, 2, 3, 4], [1, 2, 3, 4, 5], [0, 1, 2, 3, 4, 5],
             [1, 6], [0, 1, 6], [1, 2, 3, 4, 5, 6], [0, 1, 2, 3, 4, 5, 6]}"
    by blast
  have n: "newEvents s s' = evs"
    using e(1) by (rule newEvents_append)
  have order: "sorted_wrt (<) (phases evs) \<and>
      (3 \<in> set (phases evs) \<longrightarrow> 1 \<in> set (phases evs)) \<and>
      (5 \<in> set (phases evs) \<longrightarrow> 3 \<in> set (phases evs)) \<and>
      (6 \<in> set (phases evs) \<longrightarrow> 1 \<in> set (phases evs))"
    using e(2) by auto
  have abort: "r = Some err \<and> s' = s3 \<and> 5 \<notin> set (phases evs) \<and> 6 \<notin> set (phases evs)"
    if h: "ProcessTerraformSource env source (opts s) = Inr src"
      "removeOnSourceUpdate env src s = (None, s1)"
      "alreadyHaveLatestCode env src (emit CacheCheck s1) = (Inr False, s2)"
      "runActionWithHooks env ''download source''
              ((Clone env (opts s2) (TerragruntConfigPath (opts s2)))
                 \<lparr>TerraformCommand := CMD_INIT_FROM_MODULE\<rparr>) cfg
              (downloadSource env src cfg) s2 = (Some err, s3)"
    for src s1 s2 err s3
  proof -
    have dm: "downloadAndMark env src cfg s2 = (Some err, s3)"
      using h(4) by (simp add: downloadAndMark_def Let_def)
    have r: "downloadTerraformSource env source cfg s = (Some err, s3)"
      using h(1,2,3) dm
      by (simp add: downloadTerraformSource_def downloadTerraformSourceIfNecessary_def)
    then have rs: "r = Some err" "s' = s3"
      using assms by simp_all
    have "\<exists>evs3. trace s3 = trace s2 @ evs3 \<and> phases evs3 \<in> {[2], [2, 3], [2, 3, 4]}"
      using h(4)
      by (auto simp: runActionWithHooks_def Let_def
          split: prod.splits option.splits dest!: downloadSource_frame)
    moreover have "\<exists>evs2. trace s2 = trace s1 @ [CacheCheck] @ evs2 \<and> phases evs2 = []"
      using alreadyHaveLatestCode_trace [OF h(3)] by auto
    moreover have "\<exists>evs1. trace s1 = trace s @ evs1 \<and> phases evs1 \<in> {[], [0]}"
      using removeOnSourceUpdate_trace [OF h(2)] by auto
    ultimately have "5 \<notin> set (phases evs) \<and> 6 \<notin> set (phases evs)"
      using e(1) rs(2) by auto
    then show ?thesis using rs by simp
  qed
  show ?thesis
    unfolding n using order abort by blast
qed

theorem acquisition_steps_in_order_witness:
  "ProcessTerraformSource testEnv remoteRef (opts (startIn offlineWorld testOpts)) = Inr remoteSrc \<and>
   removeOnSourceUpdate testEnv remoteSrc (startIn offlineWorld testOpts) =
     (None, startIn offlineWorld testOpts) \<and>
   alreadyHaveLatestCode testEnv remoteSrc (emit CacheCheck (startIn offlineWorld testOpts)) =
     (Inr False, emit CacheCheck (startIn offlineWorld testOpts)) \<and>
   fst (runActionWithHooks testEnv ''download source''
          ((Clone testEnv testOpts (TerragruntConfigPath testOpts))
             \<lparr>TerraformCommand := CMD_INIT_FROM_MODULE\<rparr>) testConfig
          (downloadSource testEnv remoteSrc testConfig)
          (emit CacheCheck (startIn offlineWorld testOpts))) =
     Some (WithStackTrace (Err (''get '' @ remoteRef))) \<and>
   fst (downloadTerraformSource testEnv remoteRef testConfig (startIn offlineWorld testOpts)) =
     Some (WithStackTrace (Err (''get '' @ remoteRef))) \<and>
   5 \<notin> set (phases (newEvents (startIn offlineWorld testOpts)
     (snd (downloadTerraformSource testEnv remoteRef testConfig (startIn offlineWorld testOpts))))) \<and>
   sorted_wrt (<) (phases (newEvents (startIn freshWorld testOpts)
     (snd (downloadTerraformSource testEnv remoteRef testConfig (startIn freshWorld testOpts))))) \<and>
   phases (newEvents (startIn freshWorld testOpts)
     (snd (downloadTerraformSource testEnv remoteRef testConfig (startIn freshWorld testOpts)))) =
     [1, 2, 3, 4, 5, 6]"
proof -
  let ?s = "startIn offlineWorld testOpts"
  let ?X = "downloadTerraformSource testEnv remoteRef testConfig ?s"
  let ?o = "(Clone testEnv (opts (emit CacheCheck ?s)) (TerragruntConfigPath (opts (emit CacheCheck ?s))))
             \<lparr>TerraformCommand := CMD_INIT_FROM_MODULE\<rparr>"
  let ?H = "runActionWithHooks testEnv ''download source'' ?o testConfig
          (downloadSource testEnv remoteSrc testConfig) (emit CacheCheck ?s)"
  let ?e = "WithStackTrace (Err (''get '' @ remoteRef))"
  let ?t = "startIn freshWorld testOpts"
  let ?Y = "downloadTerraformSource testEnv remoteRef testConfig ?t"
  have o: "opts (emit CacheCheck ?s) = testOpts"
    by (simp add: startIn_def)
  have x: "?X = (fst ?X, snd ?X)" and y: "?Y = (fst ?Y, snd ?Y)"
    by simp_all
  have h1: "ProcessTerraformSource testEnv remoteRef (opts ?s) = Inr remoteSrc"
    by code_simp
  have h2: "removeOnSourceUpdate testEnv remoteSrc ?s = (None, ?s)"
    by code_simp
  have h3: "alreadyHaveLatestCode testEnv remoteSrc (emit CacheCheck ?s) =
      (Inr False, emit CacheCheck ?s)"
    by code_simp
  have h4: "?H = (Some ?e, snd ?H)"
    by code_simp
  have h4': "fst ?H = Some ?e"
    by code_simp
  have p: "phases (newEvents ?t (snd ?Y)) = [1, 2, 3, 4, 5, 6]"
    by code_simp
  note a = acquisition_steps_in_order [OF x]
  note b = acquisition_steps_in_order [OF y]
  have "fst ?X = Some ?e \<and> 5 \<notin> set (phases (newEvents ?s (snd ?X)))"
    using a h1 h2 h3 h4 by blast
  moreover have "sorted_wrt (<) (phases (newEvents ?t (snd ?Y)))"
    using b by blast
  ultimately show ?thesis
    using h1 h2 h3 h4' p o by simp
qed

text \<open>
  C5. \<^verbatim>\<open>downloadTerraformSource\<close> assigns \<^verbatim>\<open>terragruntOptions.WorkingDir\<close> only when the
  resolution of the source, the conditional download and the overlay copy have all
  succeeded, and then to the working directory of the source. When one of the three
  fails, its error is returned and the options of the caller are what they were.
\<close>

theorem working_dir_set_only_on_success:
  "(\<forall>e. ProcessTerraformSource env source (opts s) = Inl e \<longrightarrow>
      downloadTerraformSource env source cfg s = (Some e, s)) \<and>
   (\<forall>src e s1. ProcessTerraformSource env source (opts s) = Inr src \<and>
      downloadTerraformSourceIfNecessary env src cfg s = (Some e, s1) \<longrightarrow>
      downloadTerraformSource env source cfg s = (Some e, s1) \<and> opts s1 = opts s) \<and>
   (\<forall>src s1 e w. ProcessTerraformSource env source (opts s) = Inr src \<and>
      downloadTerraformSourceIfNecessary env src cfg s = (None, s1) \<and>
      CopyFolderContents env (WorkingDir (opts s)) (TerraformSource.WorkingDir src)
        MODULE_MANIFEST_NAME (world s1) = (Some e, w) \<longrightarrow>
      fst (downloadTerraformSource env source cfg s) = Some e \<and>
      opts (snd (downloadTerraformSource env source cfg s)) = opts s) \<and>
   (\<forall>src s1 w. ProcessTerraformSource env source (opts s) = Inr src \<and>
      downloadTerraformSourceIfNecessary env src cfg s = (None, s1) \<and>
      CopyFolderContents env (WorkingDir (opts s)) (TerraformSource.WorkingDir src)
        MODULE_MANIFEST_NAME (world s1) = (None, w) \<longrightarrow>
      fst (downloadTerraformSource env source cfg s) = None \<and>
      opts (snd (downloadTerraformSource env source cfg s)) =
        (opts s)\<lparr>WorkingDir := TerraformSource.WorkingDir src\<rparr>) \<and>
   (\<forall>e. fst (downloadTerraformSource env source cfg s) = Some e \<longrightarrow>
      opts (snd (downloadTerraformSource env source cfg s)) = opts s) \<and>
   (fst (downloadTerraformSource env source cfg s) = None \<longrightarrow>
      (\<exists>src s1 w. ProcessTerraformSource env source (opts s) = Inr src \<and>
         downloadTerraformSourceIfNecessary env src cfg s = (None, s1) \<and>
         CopyFolderContents env (WorkingDir (opts s)) (TerraformSource.WorkingDir src)
           MODULE_MANIFEST_NAME (world s1) = (None, w)))"
  by (auto simp: downloadTerraformSource_def Let_def
      split: prod.splits option.splits sum.splits
      dest!: downloadTerraformSourceIfNecessary_opts)


theorem working_dir_set_only_on_success_witness:
  "ProcessTerraformSource testEnv remoteRef testOpts = Inr remoteSrc \<and>
   fst (downloadTerraformSourceIfNecessary testEnv remoteSrc testConfig
          (startIn freshWorld testOpts)) = None \<and>
   fst (CopyFolderContents testEnv (WorkingDir testOpts) (TerraformSource.WorkingDir remoteSrc)
          MODULE_MANIFEST_NAME
          (world (snd (downloadTerraformSourceIfNecessary testEnv remoteSrc testConfig
             (startIn freshWorld testOpts))))) = None \<and>
   opts (snd (downloadTerraformSource testEnv remoteRef testConfig (startIn freshWorld testOpts))) =
     testOpts\<lparr>WorkingDir := ''/cache/m1''\<rparr> \<and>
   fst (downloadTerraformSource testEnv remoteRef testConfig (startIn freshWorld goneOpts)) =
     Some (Err ''open /gone'') \<and>
   opts (snd (downloadTerraformSource testEnv remoteRef testConfig (startIn freshWorld goneOpts))) =
     goneOpts"
proof -
  let ?s = "startIn freshWorld testOpts"
  let ?N = "downloadTerraformSourceIfNecessary testEnv remoteSrc testConfig ?s"
  let ?C = "CopyFolderContents testEnv (WorkingDir (opts ?s))
      (TerraformSource.WorkingDir remoteSrc) MODULE_MANIFEST_NAME (world (snd ?N))"
  let ?g = "startIn freshWorld goneOpts"
  have o: "opts ?s = testOpts" "opts ?g = goneOpts"
    by (simp_all add: startIn_def)
  have h1: "ProcessTerraformSource testEnv remoteRef (opts ?s) = Inr remoteSrc"
    by code_simp
  have n: "fst ?N = None"
    by code_simp
  have h2: "?N = (None, snd ?N)"
    using n by (simp add: prod_eq_iff)
  have c: "fst ?C = None"
    by code_simp
  have h3: "?C = (None, snd ?C)"
    using c by (simp add: prod_eq_iff)
  have w: "TerraformSource.WorkingDir remoteSrc = ''/cache/m1''"
    by code_simp
  have g: "fst (downloadTerraformSource testEnv remoteRef testConfig ?g) = Some (Err ''open /gone'')"
    by code_simp
  note a = working_dir_set_only_on_success [of testEnv remoteRef ?s testConfig]
  note b = working_dir_set_only_on_success [of testEnv remoteRef ?g testConfig]
  have "opts (snd (downloadTerraformSource testEnv remoteRef testConfig ?s)) =
      (opts ?s)\<lparr>WorkingDir := TerraformSource.WorkingDir remoteSrc\<rparr>"
    using a h1 h2 h3 by blast
  moreover have "opts (snd (downloadTerraformSource testEnv remoteRef testConfig ?g)) = opts ?g"
    using b g by blast
  ultimately show ?thesis
    using h1 n c g o w by simp
qed

text \<open>
  C7. Every hook call of \<^verbatim>\<open>downloadTerraformSourceIfNecessary\<close> is made with the clone
  of the caller's options in which \<^verbatim>\<open>TerraformCommand\<close> is set to the command of the
  download hooks, the fetch path makes such a call, and the options of the caller are the
  same after the function as before, whichever path is taken.
\<close>

theorem hooks_run_on_clone:
  assumes "downloadTerraformSourceIfNecessary env src cfg s = (r, s')"
  shows "opts s' = opts s \<and>
         (\<forall>ev\<in>set (newEvents s s'). \<forall>terragruntOptions.
            hookOptions ev = Some terragruntOptions \<longrightarrow>
            terragruntOptions = (Clone env (opts s) (TerragruntConfigPath (opts s)))
              \<lparr>TerraformCommand := CMD_INIT_FROM_MODULE\<rparr>) \<and>
         (\<forall>s1 s2. removeOnSourceUpdate env src s = (None, s1) \<and>
            alreadyHaveLatestCode env src (emit CacheCheck s1) = (Inr False, s2) \<longrightarrow>
            BeforeHooksCall ((Clone env (opts s) (TerragruntConfigPath (opts s)))
              \<lparr>TerraformCommand := CMD_INIT_FROM_MODULE\<rparr>) \<in> set (newEvents s s'))"
proof -
  from downloadTerraformSourceIfNecessary_trace [OF assms] obtain evs where
    e: "trace s' = trace s @ evs"
      "\<forall>ev\<in>set evs. \<forall>terragruntOptions. hookOptions ev = Some terragruntOptions \<longrightarrow>
              terragruntOptions = (Clone env (opts s) (TerragruntConfigPath (opts s)))
                \<lparr>TerraformCommand := CMD_INIT_FROM_MODULE\<rparr>"
    by blast
  have n: "newEvents s s' = evs"
    using e(1) by (rule newEvents_append)
  have b: "BeforeHooksCall ((Clone env (opts s) (TerragruntConfigPath (opts s)))
              \<lparr>TerraformCommand := CMD_INIT_FROM_MODULE\<rparr>) \<in> set evs"
    if h: "removeOnSourceUpdate env src s = (None, s1)"
      "alreadyHaveLatestCode env src (emit CacheCheck s1) = (Inr False, s2)" for s1 s2
  proof -
    have o: "opts s2 = opts s"
      using removeOnSourceUpdate_opts [OF h(1)] alreadyHaveLatestCode_frame [OF h(2)] by simp
    have dm: "downloadAndMark env src cfg s2 = (r, s')"
      using assms h by (simp add: downloadTerraformSourceIfNecessary_def)
    have "\<exists>evs3. trace s' = trace s2 @ BeforeHooksCall ((Clone env (opts s2)
        (TerragruntConfigPath (opts s2)))\<lparr>TerraformCommand := CMD_INIT_FROM_MODULE\<rparr>) # evs3"
      using dm
      by (auto simp: downloadAndMark_def runActionWithHooks_def Let_def
          split: prod.splits option.splits dest!: downloadSource_frame)
    moreover have "\<exists>evs2. trace s2 = trace s1 @ [CacheCheck] @ evs2"
      using alreadyHaveLatestCode_trace [OF h(2)] by auto
    moreover have "\<exists>evs1. trace s1 = trace s @ evs1"
      using removeOnSourceUpdate_trace [OF h(1)] by auto
    ultimately show ?thesis
      using e(1) o by auto
  qed
  show ?thesis
    unfolding n using downloadTerraformSourceIfNecessary_opts [OF assms] e(2) b by blast
qed

theorem hooks_run_on_clone_witness:
  "removeOnSourceUpdate testEnv remoteSrc (startIn freshWorld testOpts) =
     (None, startIn freshWorld testOpts) \<and>
   alreadyHaveLatestCode testEnv remoteSrc (emit CacheCheck (startIn freshWorld testOpts)) =
     (Inr False, emit CacheCheck (startIn freshWorld testOpts)) \<and>
   Clone testEnv testOpts (TerragruntConfigPath testOpts) = testOpts \<and>
   BeforeHooksCall (testOpts\<lparr>TerraformCommand := ''init-from-module''\<rparr>) \<in>
     set (newEvents (startIn freshWorld testOpts)
       (snd (downloadTerraformSourceIfNecessary testEnv remoteSrc testConfig
               (startIn freshWorld testOpts)))) \<and>
   TerraformCommand (opts (snd (downloadTerraformSourceIfNecessary testEnv remoteSrc testConfig
     (startIn freshWorld testOpts)))) = ''plan''"
proof -
  let ?s = "startIn freshWorld testOpts"
  let ?X = "downloadTerraformSourceIfNecessary testEnv remoteSrc testConfig ?s"
  have x: "?X = (fst ?X, snd ?X)"
    by simp
  have h1: "removeOnSourceUpdate testEnv remoteSrc ?s = (None, ?s)"
    by code_simp
  have h2: "alreadyHaveLatestCode testEnv remoteSrc (emit CacheCheck ?s) =
      (Inr False, emit CacheCheck ?s)"
    by code_simp
  have c: "(Clone testEnv (opts ?s) (TerragruntConfigPath (opts ?s)))
      \<lparr>TerraformCommand := CMD_INIT_FROM_MODULE\<rparr> =
      testOpts\<lparr>TerraformCommand := ''init-from-module''\<rparr>"
    by code_simp
  have c': "Clone testEnv testOpts (TerragruntConfigPath testOpts) = testOpts"
    by code_simp
  have p: "TerraformCommand (opts ?s) = ''plan''"
    by code_simp
  note a = hooks_run_on_clone [OF x]
  have "opts (snd ?X) = opts ?s"
    using a by blast
  moreover have "BeforeHooksCall ((Clone testEnv (opts ?s) (TerragruntConfigPath (opts ?s)))
      \<lparr>TerraformCommand := CMD_INIT_FROM_MODULE\<rparr>) \<in> set (newEvents ?s (snd ?X))"
    using a h1 h2 by blast
  ultimately show ?thesis
    using h1 h2 c c' p by simp
qed

subsection \<open>The getter map\<close>

lemma length_assign [simp]: "length (assign r k v m) = length m"
  by (simp add: assign_def)

lemma copy_loop_only_new:
  "r < length m \<Longrightarrow>
   fold (\<lambda>(getterName, getterValue) m.
           if getterName = ''file'' then assign r getterName FileCopyGetter m
           else assign r getterName getterValue m) xs m =
   m[r := fold (\<lambda>(k, v). AList.update k (if k = ''file'' then FileCopyGetter else v)) xs (m ! r)]"
proof (induction xs arbitrary: m)
  case Nil
  then show ?case by simp
next
  case (Cons x xs)
  obtain k v where x: "x = (k, v)" by (cases x)
  let ?v = "if k = ''file'' then FileCopyGetter else v"
  have l: "r < length (assign r k ?v m)"
    using Cons.prems by simp
  have a: "assign r k ?v m = m[r := AList.update k ?v (m ! r)]"
    using Cons.prems by (simp add: assign_def)
  have "fold (\<lambda>(getterName, getterValue) m.
           if getterName = ''file'' then assign r getterName FileCopyGetter m
           else assign r getterName getterValue m) (x # xs) m =
        fold (\<lambda>(getterName, getterValue) m.
           if getterName = ''file'' then assign r getterName FileCopyGetter m
           else assign r getterName getterValue m) xs (assign r k ?v m)"
    by (simp add: x)
  also have "\<dots> = (assign r k ?v m)[r := fold (\<lambda>(k, v). AList.update k
      (if k = ''file'' then FileCopyGetter else v)) xs (assign r k ?v m ! r)]"
    by (rule Cons.IH [OF l])
  also have "\<dots> = m[r := fold (\<lambda>(k, v). AList.update k
      (if k = ''file'' then FileCopyGetter else v)) (x # xs) (m ! r)]"
    using Cons.prems by (simp add: a x)
  finally show ?case .
qed

lemma map_of_fold_update:
  "distinct (map fst xs) \<Longrightarrow>
   map_of (fold (\<lambda>(k, v). AList.update k (h k v)) xs al) k' =
     (case map_of xs k' of Some v \<Rightarrow> Some (h k' v) | None \<Rightarrow> map_of al k')"
proof (induction xs arbitrary: al)
  case Nil
  then show ?case by simp
next
  case (Cons x xs)
  obtain k v where x: "x = (k, v)" by (cases x)
  have "map_of xs k = None"
    using Cons.prems by (simp add: x map_of_eq_None_iff)
  then show ?case
    using Cons.prems Cons.IH [of "AList.update k (h k v) al"]
    by (auto simp: x update_conv' split: option.splits)
qed

lemma keys_fold_update:
  "fst ` set (fold (\<lambda>(k, v). AList.update k (h k v)) xs al) = fst ` set xs \<union> fst ` set al"
proof (induction xs arbitrary: al)
  case Nil
  then show ?case by simp
next
  case (Cons x xs)
  obtain k v where x: "x = (k, v)" by (cases x)
  show ?case
    using Cons.IH [of "AList.update k (h k v) al"] by (auto simp: x dom_update)
qed

text \<open>
  C6. \<^verbatim>\<open>copyFiles\<close> returns no error and leaves in \<^verbatim>\<open>client.Getters\<close> a reference that
  the store did not hold before the call, so a new map at every call. The new map has
  the keys of \<^verbatim>\<open>getter.Getters\<close>; a key other than \<^verbatim>\<open>file\<close> has the value it has there,
  and \<^verbatim>\<open>file\<close> has the \<^verbatim>\<open>FileCopyGetter\<close>. Every map that the store held before the
  call, \<^verbatim>\<open>getter.Getters\<close> among them, is what it was.
\<close>

theorem copyFiles_builds_fresh_map:
  assumes alloc: "GettersRef < length ms"
    and keys: "distinct (map fst (table_of ms GettersRef))"
    and run: "copyFiles (ms, client) = (err, ms', client')"
  shows "err = None \<and> Getters client' = Some (length ms) \<and> length ms' = Suc (length ms) \<and>
         (\<forall>r<length ms. table_of ms' r = table_of ms r) \<and>
         table_of ms' GettersRef = table_of ms GettersRef \<and>
         fst ` set (table_of ms' (length ms)) = fst ` set (table_of ms GettersRef) \<and>
         (\<forall>k v. map_of (table_of ms GettersRef) k = Some v \<longrightarrow>
            map_of (table_of ms' (length ms)) k =
              Some (if k = ''file'' then FileCopyGetter else v)) \<and>
         (\<forall>k. map_of (table_of ms GettersRef) k = None \<longrightarrow>
            map_of (table_of ms' (length ms)) k = None)"
proof -
  let ?g = "table_of ms GettersRef"
  let ?new = "fold (\<lambda>(k, v). AList.update k (if k = ''file'' then FileCopyGetter else v)) ?g []"
  have loop: "fold (\<lambda>(getterName, getterValue) m.
           if getterName = ''file'' then assign (length ms) getterName FileCopyGetter m
           else assign (length ms) getterName getterValue m) ?g (ms @ [[]]) =
      (ms @ [[]])[length ms := ?new]"
    using copy_loop_only_new [of "length ms" "ms @ [[]]" ?g] by simp
  have ms': "ms' = (ms @ [[]])[length ms := ?new]"
    using run by (simp add: copyFiles_def Let_def loop)
  have err: "err = None"
    using run by (auto simp add: copyFiles_def Let_def)
  have c: "Getters client' = Some (length ms)"
    using run by (auto simp add: copyFiles_def Let_def)
  have len: "length ms' = Suc (length ms)"
    by (simp add: ms')
  have new: "table_of ms' (length ms) = ?new"
    by (simp add: ms' table_of_def)
  have old: "table_of ms' r = table_of ms r" if "r < length ms" for r
    using that by (simp add: ms' table_of_def nth_append)
  have m: "map_of ?new k = (case map_of ?g k of
      Some v \<Rightarrow> Some (if k = ''file'' then FileCopyGetter else v) | None \<Rightarrow> None)" for k
    using map_of_fold_update [OF keys, of "\<lambda>k v. if k = ''file'' then FileCopyGetter else v" "[]" k]
    by (simp split: option.splits)
  have k: "fst ` set ?new = fst ` set ?g"
    using keys_fold_update [of "\<lambda>k v. if k = ''file'' then FileCopyGetter else v" ?g "[]"]
    by simp
  have some: "map_of (table_of ms' (length ms)) k =
      Some (if k = ''file'' then FileCopyGetter else v)" if "map_of ?g k = Some v" for k v
    using m [of k] that by (simp add: new)
  have none: "map_of (table_of ms' (length ms)) k = None" if "map_of ?g k = None" for k
    using m [of k] that by (simp add: new)
  have ks: "fst ` set (table_of ms' (length ms)) = fst ` set ?g"
    using k by (simp add: new)
  show ?thesis
    using err c len old old [OF alloc] ks some none by blast
qed


theorem copyFiles_builds_fresh_map_witness:
  "GettersRef < length [defaultGetters] \<and>
   distinct (map fst (table_of [defaultGetters] GettersRef)) \<and>
   map_of (table_of [defaultGetters] GettersRef) ''file'' = Some (DefaultGetter 0) \<and>
   map_of (table_of [defaultGetters] GettersRef) ''git'' = Some (DefaultGetter 1) \<and>
   map_of (table_of [defaultGetters] GettersRef) ''s3'' = None \<and>
   table_of (fst (snd (copyFiles ([defaultGetters], \<lparr>Getters = None\<rparr>)))) GettersRef =
     table_of [defaultGetters] GettersRef \<and>
   Getters (snd (snd (copyFiles ([defaultGetters], \<lparr>Getters = None\<rparr>)))) =
     Some (length [defaultGetters]) \<and>
   map_of (table_of (fst (snd (copyFiles ([defaultGetters], \<lparr>Getters = None\<rparr>))))
     (length [defaultGetters])) ''file'' = Some FileCopyGetter \<and>
   map_of (table_of (fst (snd (copyFiles ([defaultGetters], \<lparr>Getters = None\<rparr>))))
     (length [defaultGetters])) ''git'' = Some (DefaultGetter 1) \<and>
   map_of (table_of (fst (snd (copyFiles ([defaultGetters], \<lparr>Getters = None\<rparr>))))
     (length [defaultGetters])) ''s3'' = None"
proof -
  let ?ms = "[defaultGetters]"
  let ?X = "copyFiles (?ms, \<lparr>Getters = None\<rparr>)"
  let ?new = "table_of (fst (snd ?X)) (length ?ms)"
  have x: "?X = (fst ?X, fst (snd ?X), snd (snd ?X))"
    by simp
  have a: "GettersRef < length ?ms"
    by code_simp
  have d: "distinct (map fst (table_of ?ms GettersRef))"
    by code_simp
  have f: "map_of (table_of ?ms GettersRef) ''file'' = Some (DefaultGetter 0)"
    by code_simp
  have h: "map_of (table_of ?ms GettersRef) ''git'' = Some (DefaultGetter 1)"
    by code_simp
  have n: "map_of (table_of ?ms GettersRef) ''s3'' = None"
    by code_simp
  have g: "''git'' \<noteq> ''file''"
    by simp
  note t = copyFiles_builds_fresh_map [OF a d x]
  have t1: "table_of (fst (snd ?X)) GettersRef = table_of ?ms GettersRef"
    using t by blast
  have t2: "Getters (snd (snd ?X)) = Some (length ?ms)"
    using t by blast
  have t3: "\<forall>k v. map_of (table_of ?ms GettersRef) k = Some v \<longrightarrow>
      map_of ?new k = Some (if k = ''file'' then FileCopyGetter else v)"
    using t by blast
  have t4: "\<forall>k. map_of (table_of ?ms GettersRef) k = None \<longrightarrow> map_of ?new k = None"
    using t by blast
  have r1: "map_of ?new ''file'' = Some FileCopyGetter"
    using t3 [rule_format, OF f] by simp
  have r2: "map_of ?new ''git'' = Some (DefaultGetter 1)"
    using t3 [rule_format, OF h] g by simp
  have r3: "map_of ?new ''s3'' = None"
    using t4 [rule_format, OF n] .
  show ?thesis
    using a d f h n t1 t2 r1 r2 r3 by blast
qed

subsection \<open>A forced update\<close>

text \<open>
  What a download does to the world is what the transfer of go-getter does, run on the
  getters that \<^verbatim>\<open>copyFiles\<close> builds.
\<close>

lemma GetAny_copyFiles:
  "GetAny env dst u copyFiles s =
     (case ClientGet env dst u (downloadGetters (maps s)) (world s) of
        (err, w) \<Rightarrow> (err, s\<lparr>world := w,
           maps := fst (snd (copyFiles (maps s, \<lparr>Getters = None\<rparr>)))\<rparr>))"
  by (simp add: GetAny_def downloadGetters_def copyFiles_def Let_def split: prod.splits)

lemma downloadSource_world:
  assumes "ClientGet env (DownloadDir src) (CanonicalSourceURL src)
             (downloadGetters (maps s)) (world s) = (g, w)"
  shows "fst (downloadSource env src cfg s) = map_option WithStackTrace g \<and>
         world (snd (downloadSource env src cfg s)) = w"
  using assms
  by (cases g) (simp_all add: downloadSource_def GetAny_copyFiles Let_def)

lemma downloadAndMark_world:
  assumes bh: "ProcessBeforeHooks env
             ((Clone env (opts s) (TerragruntConfigPath (opts s)))
                \<lparr>TerraformCommand := CMD_INIT_FROM_MODULE\<rparr>) cfg (world s) = (None, w1)"
    and cg: "ClientGet env (DownloadDir src) (CanonicalSourceURL src)
             (downloadGetters (maps s)) w1 = (g, w2)"
  shows "(\<forall>e. g = Some e \<longrightarrow>
            fst (downloadAndMark env src cfg s) = Some (WithStackTrace e) \<and>
            world (snd (downloadAndMark env src cfg s)) = w2) \<and>
         (g = None \<longrightarrow>
            (\<forall>a w3. ProcessAfterHooks env
                ((Clone env (opts s) (TerragruntConfigPath (opts s)))
                   \<lparr>TerraformCommand := CMD_INIT_FROM_MODULE\<rparr>) cfg w2 = (a, w3) \<longrightarrow>
               (\<forall>e. a = Some e \<longrightarrow>
                  fst (downloadAndMark env src cfg s) = Some e \<and>
                  world (snd (downloadAndMark env src cfg s)) = w3) \<and>
               (a = None \<longrightarrow>
                  (fst (downloadAndMark env src cfg s),
                   world (snd (downloadAndMark env src cfg s))) =
                    WriteVersionFile env src w3)))"
proof -
  let ?o = "(Clone env (opts s) (TerragruntConfigPath (opts s)))
      \<lparr>TerraformCommand := CMD_INIT_FROM_MODULE\<rparr>"
  let ?t = "(emit (BeforeHooksCall ?o) s)\<lparr>world := w1\<rparr>"
  have m: "maps ?t = maps s" and w: "world ?t = w1"
    by simp_all
  have ds: "fst (downloadSource env src cfg ?t) = map_option WithStackTrace g"
    "world (snd (downloadSource env src cfg ?t)) = w2"
    using downloadSource_world [of env src ?t g w2 cfg] cg by (simp_all add: m)
  obtain r3 s3 where d: "downloadSource env src cfg ?t = (r3, s3)"
    by (cases "downloadSource env src cfg ?t")
  have r3: "r3 = map_option WithStackTrace g" and s3: "world s3 = w2"
    using ds d by simp_all
  show ?thesis
    using bh d r3 s3
    by (auto simp: downloadAndMark_def runActionWithHooks_def Let_def
        split: prod.splits option.splits)
qed

lemma removeOnSourceUpdate_maps:
  "removeOnSourceUpdate env src s = (r, s1) \<Longrightarrow> maps s1 = maps s"
  by (auto simp: removeOnSourceUpdate_def Let_def split: if_splits prod.splits)

text \<open>
  C3, as the code has it. With \<^verbatim>\<open>SourceUpdate\<close> set, \<^verbatim>\<open>os.RemoveAll\<close> is called on the
  download directory before anything else. When it fails, its error is returned wrapped
  and nothing further is done. When it succeeds, so that the download directory is gone,
  the cache check that follows answers false and the skip path is not taken: the steps
  start with removal, cache check and before hooks. When the before hooks fail, their
  error is returned and nothing is fetched. When they succeed, the fetch backend is
  called once, on the download directory and the canonical URL with the getters of
  \<^verbatim>\<open>copyFiles\<close>; its failure is returned wrapped, and after its success the after hooks
  and the write of the version file decide the result, each on the world the step before
  left.
\<close>

theorem source_update_removes_then_fetches:
  assumes force: "SourceUpdate (opts s)"
    and rm: "RemoveAll env (DownloadDir src) (world s) = (r, w)"
    and pre: "removeOnSourceUpdate env src s = (r1, s1)"
  shows "r1 = map_option WithStackTrace r \<and> world s1 = w \<and> phases (newEvents s s1) = [0] \<and>
         (\<forall>e. r = Some e \<longrightarrow>
            downloadTerraformSourceIfNecessary env src cfg s = (Some (WithStackTrace e), s1) \<and>
            (ProcessTerraformSource env source (opts s) = Inr src \<longrightarrow>
               downloadTerraformSource env source cfg s = (Some (WithStackTrace e), s1))) \<and>
         (r = None \<and> \<not> FileExists env w (DownloadDir src) \<longrightarrow>
            alreadyHaveLatestCode env src (emit CacheCheck s1) = (Inr False, emit CacheCheck s1) \<and>
            downloadTerraformSourceIfNecessary env src cfg s =
              downloadAndMark env src cfg (emit CacheCheck s1) \<and>
            take 3 (phases (newEvents s (snd (downloadTerraformSourceIfNecessary env src cfg s)))) =
              [0, 1, 2] \<and>
            (\<forall>e w1. ProcessBeforeHooks env
                    ((Clone env (opts s) (TerragruntConfigPath (opts s)))
                       \<lparr>TerraformCommand := CMD_INIT_FROM_MODULE\<rparr>) cfg w = (Some e, w1) \<longrightarrow>
               fst (downloadTerraformSourceIfNecessary env src cfg s) = Some e \<and>
               world (snd (downloadTerraformSourceIfNecessary env src cfg s)) = w1 \<and>
               fetchCalls (newEvents s (snd (downloadTerraformSourceIfNecessary env src cfg s))) = 0) \<and>
            (\<forall>w1 g w2. ProcessBeforeHooks env
                    ((Clone env (opts s) (TerragruntConfigPath (opts s)))
                       \<lparr>TerraformCommand := CMD_INIT_FROM_MODULE\<rparr>) cfg w = (None, w1) \<and>
                  ClientGet env (DownloadDir src) (CanonicalSourceURL src)
                    (downloadGetters (maps s)) w1 = (g, w2) \<longrightarrow>
               fetchCalls (newEvents s (snd (downloadTerraformSourceIfNecessary env src cfg s))) = 1 \<and>
               (\<forall>e. g = Some e \<longrightarrow>
                  fst (downloadTerraformSourceIfNecessary env src cfg s) =
                    Some (WithStackTrace e) \<and>
                  world (snd (downloadTerraformSourceIfNecessary env src cfg s)) = w2) \<and>
               (g = None \<longrightarrow>
                  (\<forall>a w3. ProcessAfterHooks env
                      ((Clone env (opts s) (TerragruntConfigPath (opts s)))
                         \<lparr>TerraformCommand := CMD_INIT_FROM_MODULE\<rparr>) cfg w2 = (a, w3) \<longrightarrow>
                     (\<forall>e. a = Some e \<longrightarrow>
                        fst (downloadTerraformSourceIfNecessary env src cfg s) = Some e \<and>
                        world (snd (downloadTerraformSourceIfNecessary env src cfg s)) = w3) \<and>
                     (a = None \<longrightarrow>
                        (fst (downloadTerraformSourceIfNecessary env src cfg s),
                         world (snd (downloadTerraformSourceIfNecessary env src cfg s))) =
                          WriteVersionFile env src w3)))))"
proof -
  let ?l = "Log (''The --'' @ OPT_TERRAGRUNT_SOURCE_UPDATE env @
      '' flag is set, so deleting the temporary folder '' @ DownloadDir src @
      '' before downloading source.'')"
  let ?o = "(Clone env (opts s) (TerragruntConfigPath (opts s)))
      \<lparr>TerraformCommand := CMD_INIT_FROM_MODULE\<rparr>"
  let ?N = "downloadTerraformSourceIfNecessary env src cfg s"
  have s1: "s1 = (emit (RemoveAllCall (DownloadDir src)) (emit ?l s))\<lparr>world := w\<rparr>"
    and r1: "r1 = map_option WithStackTrace r"
    using force rm pre by (simp_all add: removeOnSourceUpdate_def Let_def)
  have t1: "trace s1 = trace s @ [?l, RemoveAllCall (DownloadDir src)]"
    and w1: "world s1 = w" and o1: "opts s1 = opts s" and m1: "maps s1 = maps s"
    using s1 by simp_all
  have n1: "phases (newEvents s s1) = [0]"
    using newEvents_append [OF t1] by simp
  have fail: "?N = (Some (WithStackTrace e), s1) \<and>
      (ProcessTerraformSource env source (opts s) = Inr src \<longrightarrow>
         downloadTerraformSource env source cfg s = (Some (WithStackTrace e), s1))"
    if "r = Some e" for e
    using that pre r1
    by (simp add: downloadTerraformSourceIfNecessary_def downloadTerraformSource_def)
  have ok: "alreadyHaveLatestCode env src (emit CacheCheck s1) = (Inr False, emit CacheCheck s1) \<and>
      ?N = downloadAndMark env src cfg (emit CacheCheck s1) \<and>
      take 3 (phases (newEvents s (snd ?N))) = [0, 1, 2] \<and>
      (\<forall>e w1. ProcessBeforeHooks env ?o cfg w = (Some e, w1) \<longrightarrow>
         fst ?N = Some e \<and> world (snd ?N) = w1 \<and> fetchCalls (newEvents s (snd ?N)) = 0) \<and>
      (\<forall>w1 g w2. ProcessBeforeHooks env ?o cfg w = (None, w1) \<and>
            ClientGet env (DownloadDir src) (CanonicalSourceURL src)
              (downloadGetters (maps s)) w1 = (g, w2) \<longrightarrow>
         fetchCalls (newEvents s (snd ?N)) = 1 \<and>
         (\<forall>e. g = Some e \<longrightarrow> fst ?N = Some (WithStackTrace e) \<and> world (snd ?N) = w2) \<and>
         (g = None \<longrightarrow>
            (\<forall>a w3. ProcessAfterHooks env ?o cfg w2 = (a, w3) \<longrightarrow>
               (\<forall>e. a = Some e \<longrightarrow> fst ?N = Some e \<and> world (snd ?N) = w3) \<and>
               (a = None \<longrightarrow> (fst ?N, world (snd ?N)) = WriteVersionFile env src w3))))"
    if h: "r = None" "\<not> FileExists env w (DownloadDir src)"
  proof -
    let ?c = "emit CacheCheck s1"
    have c: "opts ?c = opts s" "world ?c = w" "maps ?c = maps s"
      using o1 w1 m1 by simp_all
    have a: "alreadyHaveLatestCode env src ?c = (Inr False, ?c)"
      using h(2) w1 by (simp add: alreadyHaveLatestCode_def)
    have b: "?N = downloadAndMark env src cfg ?c"
      using pre r1 h(1) a by (simp add: downloadTerraformSourceIfNecessary_def)
    obtain r3 s3 where dm: "downloadAndMark env src cfg ?c = (r3, s3)"
      by (cases "downloadAndMark env src cfg ?c")
    from downloadAndMark_trace [OF dm] obtain evs where
      e: "trace s3 = trace ?c @ evs" "phases evs \<in> {[2], [2, 3], [2, 3, 4], [2, 3, 4, 5]}"
      by blast
    have t3: "trace s3 = trace s @ ([?l, RemoveAllCall (DownloadDir src), CacheCheck] @ evs)"
      using e(1) t1 by simp
    have n3: "newEvents s s3 = [?l, RemoveAllCall (DownloadDir src), CacheCheck] @ evs"
      using t3 by (rule newEvents_append)
    have p: "take 3 (phases (newEvents s s3)) = [0, 1, 2]"
      unfolding n3 using e(2) by auto
    have nohook: "r3 = Some err \<and> world s3 = w1 \<and> fetchCalls (newEvents s s3) = 0"
      if bh: "ProcessBeforeHooks env ?o cfg w = (Some err, w1)" for err w1
    proof -
      have "r3 = Some err \<and> world s3 = w1 \<and> phases evs = [2]"
        using dm bh e(1) c
        by (auto simp: downloadAndMark_def runActionWithHooks_def Let_def
            split: prod.splits option.splits)
      then show ?thesis
        unfolding n3 by (auto simp: fetchCalls_phases)
    qed
    have fetch: "fetchCalls (newEvents s s3) = 1 \<and>
        (\<forall>e. g = Some e \<longrightarrow> r3 = Some (WithStackTrace e) \<and> world s3 = w2) \<and>
        (g = None \<longrightarrow>
           (\<forall>a w3. ProcessAfterHooks env ?o cfg w2 = (a, w3) \<longrightarrow>
              (\<forall>e. a = Some e \<longrightarrow> r3 = Some e \<and> world s3 = w3) \<and>
              (a = None \<longrightarrow> (r3, world s3) = WriteVersionFile env src w3)))"
      if bh: "ProcessBeforeHooks env ?o cfg w = (None, w1)"
        and cg: "ClientGet env (DownloadDir src) (CanonicalSourceURL src)
              (downloadGetters (maps s)) w1 = (g, w2)" for w1 g w2
    proof -
      have "phases evs \<in> {[2, 3], [2, 3, 4], [2, 3, 4, 5]}"
        using dm bh e(1) c
        by (auto simp: downloadAndMark_def runActionWithHooks_def Let_def
            split: prod.splits option.splits dest!: downloadSource_frame)
      then have f: "fetchCalls (newEvents s s3) = 1"
        unfolding n3 by (auto simp: fetchCalls_phases)
      have bh': "ProcessBeforeHooks env
          ((Clone env (opts ?c) (TerragruntConfigPath (opts ?c)))
             \<lparr>TerraformCommand := CMD_INIT_FROM_MODULE\<rparr>) cfg (world ?c) = (None, w1)"
        using bh c by simp
      have cg': "ClientGet env (DownloadDir src) (CanonicalSourceURL src)
          (downloadGetters (maps ?c)) w1 = (g, w2)"
        using cg c by simp
      show ?thesis
        using f downloadAndMark_world [OF bh' cg'] dm c by simp
    qed
    show ?thesis
      using a b p nohook fetch dm by simp
  qed
  show ?thesis
    using r1 w1 n1 fail ok by blast
qed


theorem source_update_removes_then_fetches_witness:
  "SourceUpdate forcedOpts \<and>
   FileExists testEnv cachedWorld (DownloadDir remoteSrc) \<and>
   fst (RemoveAll testEnv (DownloadDir remoteSrc) cachedWorld) = None \<and>
   \<not> FileExists testEnv (snd (RemoveAll testEnv (DownloadDir remoteSrc) cachedWorld))
       (DownloadDir remoteSrc) \<and>
   \<not> FileExists testEnv (snd (RemoveAll testEnv (DownloadDir remoteSrc) cachedWorld))
       ''/cache/m1/main.tf'' \<and>
   take 3 (phases (newEvents (startIn cachedWorld forcedOpts)
     (snd (downloadTerraformSourceIfNecessary testEnv remoteSrc testConfig
        (startIn cachedWorld forcedOpts))))) = [0, 1, 2] \<and>
   fetchCalls (newEvents (startIn cachedWorld forcedOpts)
     (snd (downloadTerraformSourceIfNecessary testEnv remoteSrc testConfig
        (startIn cachedWorld forcedOpts)))) = 1 \<and>
   fst (downloadTerraformSourceIfNecessary testEnv remoteSrc testConfig
          (startIn cachedWorld forcedOpts)) = None \<and>
   FileExists testEnv (world (snd (downloadTerraformSourceIfNecessary testEnv remoteSrc testConfig
          (startIn cachedWorld forcedOpts)))) ''/cache/m1/main.tf'' \<and>
   fst (RemoveAll lockedEnv (DownloadDir remoteSrc) cachedWorld) = Some (Err ''unlinkat /cache/m1'') \<and>
   fst (downloadTerraformSource lockedEnv remoteRef testConfig (startIn cachedWorld forcedOpts)) =
     Some (WithStackTrace (Err ''unlinkat /cache/m1'')) \<and>
   phases (newEvents (startIn cachedWorld forcedOpts)
     (snd (downloadTerraformSource lockedEnv remoteRef testConfig
        (startIn cachedWorld forcedOpts)))) = [0]"
proof -
  let ?s = "startIn cachedWorld forcedOpts"
  let ?R = "RemoveAll testEnv (DownloadDir remoteSrc) (world ?s)"
  let ?P = "removeOnSourceUpdate testEnv remoteSrc ?s"
  let ?N = "downloadTerraformSourceIfNecessary testEnv remoteSrc testConfig ?s"
  let ?L = "RemoveAll lockedEnv (DownloadDir remoteSrc) (world ?s)"
  let ?Q = "removeOnSourceUpdate lockedEnv remoteSrc ?s"
  let ?e = "Err ''unlinkat /cache/m1''"
  let ?o = "(Clone testEnv (opts ?s) (TerragruntConfigPath (opts ?s)))
         \<lparr>TerraformCommand := CMD_INIT_FROM_MODULE\<rparr>"
  let ?G = "ClientGet testEnv (DownloadDir remoteSrc) (CanonicalSourceURL remoteSrc)
      (downloadGetters (maps ?s)) (snd ?R)"
  let ?A = "ProcessAfterHooks testEnv ?o testConfig (snd ?G)"
  let ?W = "WriteVersionFile testEnv remoteSrc (snd ?A)"
  have w: "world ?s = cachedWorld" and o: "opts ?s = forcedOpts"
    by (simp_all add: startIn_def)
  have f: "SourceUpdate (opts ?s)"
    by code_simp
  have f': "SourceUpdate forcedOpts"
    by code_simp
  have ex: "FileExists testEnv cachedWorld (DownloadDir remoteSrc)"
    by code_simp
  have r: "?R = (fst ?R, snd ?R)" and p: "?P = (fst ?P, snd ?P)"
    and l: "?L = (fst ?L, snd ?L)" and q: "?Q = (fst ?Q, snd ?Q)"
    by simp_all
  have rn: "fst ?R = None"
    by code_simp
  have gone: "\<not> FileExists testEnv (snd ?R) (DownloadDir remoteSrc)"
    by code_simp
  have gone': "\<not> FileExists testEnv (snd ?R) ''/cache/m1/main.tf''"
    by code_simp
  have bh: "ProcessBeforeHooks testEnv ?o testConfig (snd ?R) = (None, snd ?R)"
    by code_simp
  have g: "?G = (None, snd ?G)"
    by code_simp
  have a: "?A = (None, snd ?A)"
    by code_simp
  have wr: "fst ?W = None"
    by code_simp
  have refetched: "FileExists testEnv (snd ?W) ''/cache/m1/main.tf''"
    by code_simp
  have le: "fst ?L = Some ?e"
    by code_simp
  have ps: "ProcessTerraformSource lockedEnv remoteRef (opts ?s) = Inr remoteSrc"
    by code_simp
  note t = source_update_removes_then_fetches [OF f r p, of testConfig remoteRef]
  note b = source_update_removes_then_fetches [OF f l q, of testConfig remoteRef]
  have "take 3 (phases (newEvents ?s (snd ?N))) = [0, 1, 2]"
    using t rn gone by blast
  moreover have "fetchCalls (newEvents ?s (snd ?N)) = 1 \<and> (fst ?N, world (snd ?N)) = ?W"
    using t rn gone bh g a by blast
  then have "fetchCalls (newEvents ?s (snd ?N)) = 1" "fst ?N = None"
    "FileExists testEnv (world (snd ?N)) ''/cache/m1/main.tf''"
    using wr refetched by (simp_all add: prod_eq_iff)
  moreover have "downloadTerraformSource lockedEnv remoteRef testConfig ?s =
      (Some (WithStackTrace ?e), snd ?Q) \<and> phases (newEvents ?s (snd ?Q)) = [0]"
    using b le ps by blast
  ultimately show ?thesis
    using f' ex rn gone gone' le w by simp
qed

text \<open>
  The fetch is not unconditional. With a before hook that fails, a forced update removes
  the download directory and returns the error of the hook: the fetch backend is not
  called, and the world is the one the removal left, without the download directory.
\<close>

theorem source_update_hook_failure_counterexample:
  "SourceUpdate forcedOpts \<and>
   FileExists hookFailEnv cachedWorld (DownloadDir remoteSrc) \<and>
   fst (RemoveAll hookFailEnv (DownloadDir remoteSrc) cachedWorld) = None \<and>
   fst (downloadTerraformSource hookFailEnv remoteRef testConfig (startIn cachedWorld forcedOpts)) =
     Some (Err ''before hook failed'') \<and>
   fetchCalls (trace (snd (downloadTerraformSource hookFailEnv remoteRef testConfig
     (startIn cachedWorld forcedOpts)))) = 0 \<and>
   world (snd (downloadTerraformSource hookFailEnv remoteRef testConfig
     (startIn cachedWorld forcedOpts))) =
     snd (RemoveAll hookFailEnv (DownloadDir remoteSrc) cachedWorld) \<and>
   \<not> FileExists hookFailEnv (world (snd (downloadTerraformSource hookFailEnv remoteRef testConfig
     (startIn cachedWorld forcedOpts)))) (DownloadDir remoteSrc)"
  by code_simp

subsection \<open>A second acquisition\<close>







lemma fsEnv_simps [simp]:
  "ProcessTerraformSource (fsEnv table encode) source terragruntOptions =
     (case map_of table source of None \<Rightarrow> Inl (Err (''source '' @ source)) | Some src \<Rightarrow> Inr src)"
  "IsLocalSource (fsEnv table encode) = prefix ''file://''"
  "EncodeSourceVersion (fsEnv table encode) = encode"
  "FileExists (fsEnv table encode) = fsFileExists"
  "Glob (fsEnv table encode) = fsGlob"
  "ReadVersionFile (fsEnv table encode) = fsReadVersionFile"
  "WriteVersionFile (fsEnv table encode) = fsWriteVersionFile encode"
  "RemoveAll (fsEnv table encode) = fsRemoveAll"
  "CopyFolderContents (fsEnv table encode) = fsCopyFolderContents"
  "ProcessBeforeHooks (fsEnv table encode) terragruntOptions terragruntConfig w = (None, w)"
  "ProcessAfterHooks (fsEnv table encode) terragruntOptions terragruntConfig w = (None, w)"
  "ClientGet (fsEnv table encode) = fsClientGet"
  by (simp_all add: fsEnv_def)








subsection \<open>The test for Terraform files\<close>











end
